theory Spec2Isabelle
  imports Complex_Main
begin

section \<open>Precomputed radiance transfer: the integrator of prt.cpp\<close>

text \<open>
  The development embeds \<^verbatim>\<open>src/prt/src/prt.cpp\<close>: the cubemap loader and projector of
  namespace \<^verbatim>\<open>ProjEnv\<close>, and the constructor, \<^verbatim>\<open>preprocess\<close> and \<^verbatim>\<open>Li\<close> of class
  \<^verbatim>\<open>PRTIntegrator\<close>.

  Numbers. The source computes in \<^verbatim>\<open>float\<close> and \<^verbatim>\<open>double\<close>; the embedding computes in
  \<open>real\<close>, so rounding, overflow and the conversion between the two widths are left out.
  The one place where the source, computing exactly, leaves the real numbers is the weight
  of the bounce samples, a division by the square of the sample grid's side: for an empty
  grid it is infinite, and its product with the zero sum is NaN. The transport
  coefficients, which that product reaches, are therefore values of the type \<open>float\<close>
  below: a real number, an infinity or NaN, with the arithmetic of IEEE 754 on them.

  Collaborators. Functions that \<^verbatim>\<open>prt.cpp\<close> calls but does not define (the image decoder,
  the path resolver, the spherical-harmonics library, the stream formatting of numbers)
  are the fields of the record \<open>externals\<close>, and every theorem holds for any value of
  them. The scene's ray query is a field of the scene, the property list's getters are
  the fields of the property list.
\<close>

subsection \<open>Vectors\<close>

type_synonym vec3 = "real \<times> real \<times> real"

definition vx :: "vec3 \<Rightarrow> real" where
  "vx a = fst a"

definition vy :: "vec3 \<Rightarrow> real" where
  "vy a = fst (snd a)"

definition vz :: "vec3 \<Rightarrow> real" where
  "vz a = snd (snd a)"

definition dot :: "vec3 \<Rightarrow> vec3 \<Rightarrow> real" where
  "dot a b = vx a * vx b + vy a * vy b + vz a * vz b"

definition scale3 :: "real \<Rightarrow> vec3 \<Rightarrow> vec3" where
  "scale3 k a = (k * vx a, k * vy a, k * vz a)"

definition add3 :: "vec3 \<Rightarrow> vec3 \<Rightarrow> vec3" where
  "add3 a b = (vx a + vx b, vy a + vy b, vz a + vz b)"

definition squaredNorm :: "vec3 \<Rightarrow> real" where
  "squaredNorm a = dot a a"

text \<open>Eigen's \<^verbatim>\<open>normalized()\<close>: the vector over its norm, and the vector itself when the
  squared norm is not positive.\<close>

definition normalized :: "vec3 \<Rightarrow> vec3" where
  "normalized a = (if squaredNorm a > 0 then scale3 (1 / sqrt (squaredNorm a)) a else a)"

subsection \<open>Floating-point values\<close>

datatype float = Finite real | PInf | NInf | NaN

instantiation float :: "{comm_monoid_add, times, ord}"
begin

definition zero_float :: float where
  "zero_float = Finite 0"

definition plus_float :: "float \<Rightarrow> float \<Rightarrow> float" where
  "plus_float a b =
     (case a of
        Finite x \<Rightarrow> (case b of Finite y \<Rightarrow> Finite (x + y) | PInf \<Rightarrow> PInf | NInf \<Rightarrow> NInf | NaN \<Rightarrow> NaN)
      | PInf \<Rightarrow> (case b of Finite y \<Rightarrow> PInf | PInf \<Rightarrow> PInf | NInf \<Rightarrow> NaN | NaN \<Rightarrow> NaN)
      | NInf \<Rightarrow> (case b of Finite y \<Rightarrow> NInf | PInf \<Rightarrow> NaN | NInf \<Rightarrow> NInf | NaN \<Rightarrow> NaN)
      | NaN \<Rightarrow> NaN)"

definition times_float :: "float \<Rightarrow> float \<Rightarrow> float" where
  "times_float a b =
     (case a of
        Finite x \<Rightarrow>
          (case b of
             Finite y \<Rightarrow> Finite (x * y)
           | PInf \<Rightarrow> (if x = 0 then NaN else if 0 < x then PInf else NInf)
           | NInf \<Rightarrow> (if x = 0 then NaN else if 0 < x then NInf else PInf)
           | NaN \<Rightarrow> NaN)
      | PInf \<Rightarrow>
          (case b of
             Finite y \<Rightarrow> (if y = 0 then NaN else if 0 < y then PInf else NInf)
           | PInf \<Rightarrow> PInf | NInf \<Rightarrow> NInf | NaN \<Rightarrow> NaN)
      | NInf \<Rightarrow>
          (case b of
             Finite y \<Rightarrow> (if y = 0 then NaN else if 0 < y then NInf else PInf)
           | PInf \<Rightarrow> NInf | NInf \<Rightarrow> PInf | NaN \<Rightarrow> NaN)
      | NaN \<Rightarrow> NaN)"

definition less_eq_float :: "float \<Rightarrow> float \<Rightarrow> bool" where
  "less_eq_float a b =
     (case a of
        Finite x \<Rightarrow> (case b of Finite y \<Rightarrow> x \<le> y | PInf \<Rightarrow> True | NInf \<Rightarrow> False | NaN \<Rightarrow> False)
      | PInf \<Rightarrow> (case b of Finite y \<Rightarrow> False | PInf \<Rightarrow> True | NInf \<Rightarrow> False | NaN \<Rightarrow> False)
      | NInf \<Rightarrow> (case b of Finite y \<Rightarrow> True | PInf \<Rightarrow> True | NInf \<Rightarrow> True | NaN \<Rightarrow> False)
      | NaN \<Rightarrow> False)"

definition less_float :: "float \<Rightarrow> float \<Rightarrow> bool" where
  "less_float a b =
     (case a of
        Finite x \<Rightarrow> (case b of Finite y \<Rightarrow> x < y | PInf \<Rightarrow> True | NInf \<Rightarrow> False | NaN \<Rightarrow> False)
      | PInf \<Rightarrow> False
      | NInf \<Rightarrow> (case b of Finite y \<Rightarrow> True | PInf \<Rightarrow> True | NInf \<Rightarrow> False | NaN \<Rightarrow> False)
      | NaN \<Rightarrow> False)"

instance
proof
  fix a b c :: float
  show "a + b + c = a + (b + c)"
    by (cases a; cases b; cases c) (simp_all add: plus_float_def)
  show "a + b = b + a"
    by (cases a; cases b) (simp_all add: plus_float_def)
  show "0 + a = a"
    by (cases a) (simp_all add: plus_float_def zero_float_def)
qed

end

text \<open>Sums and products follow IEEE 754: NaN absorbs, opposite infinities add to NaN,
  zero times an infinity is NaN; a comparison with NaN is false. The sum is associative
  and commutative with \<open>Finite 0\<close> as its zero, which the instance records, so that the
  sums of lists are at hand. The signed zeros are one value.\<close>

type_synonym Color3f = "float \<times> float \<times> float"

subsection \<open>Errors, scene, integrator state\<close>

datatype error =
    Exit int
  | NoriException string
  | OutOfBounds

text \<open>\<open>Exit c\<close> is \<^verbatim>\<open>exit(c)\<close>; \<open>NoriException\<close> is the exception of the constructor (and of
  a property getter); \<open>OutOfBounds\<close> stands for an index outside a vector or a matrix,
  which the source does not check and C++ leaves undefined.\<close>

record Intersection =
  tri_index :: "nat \<times> nat \<times> nat"
  bary :: vec3
  its_mesh :: nat

type_synonym Ray3f = "vec3 \<times> vec3"

record Mesh =
  VertexPositions :: "vec3 list"
  VertexNormals :: "vec3 list"
  Indices :: "(nat \<times> nat \<times> nat) list"

definition getVertexCount :: "Mesh \<Rightarrow> nat" where
  "getVertexCount mesh = length (VertexPositions mesh)"

definition getTriangleCount :: "Mesh \<Rightarrow> nat" where
  "getTriangleCount mesh = length (Indices mesh)"

record Scene =
  getMeshes :: "Mesh list"
  rayIntersect :: "Ray3f \<Rightarrow> Intersection option"

text \<open>The scene's two queries, \<^verbatim>\<open>rayIntersect(ray)\<close> and \<^verbatim>\<open>rayIntersect(ray, its)\<close>, are the
  one field \<open>rayIntersect\<close>: the first is whether the second finds a hit. \<open>its_mesh\<close> is
  the index, in \<open>getMeshes\<close>, of the mesh that was hit.\<close>

datatype Type = Unshadowed | Shadowed | Interreflection

definition SHOrder :: nat where
  "SHOrder = 2"

definition SHCoeffLength :: nat where
  "SHCoeffLength = (SHOrder + 1) * (SHOrder + 1)"

record PRTIntegrator =
  m_Type :: Type
  m_Bounce :: int
  m_SampleCount :: int
  m_CubemapPath :: string
  m_TransportSHCoeffs :: "float list list"
  m_LightCoeffs :: "vec3 list"

text \<open>\<open>m_TransportSHCoeffs\<close> is the list of the matrix's columns, one per vertex, each the
  list of its \<open>SHCoeffLength\<close> coefficients; \<open>m_LightCoeffs\<close> is the list of the columns of
  the 3 by \<open>SHCoeffLength\<close> light matrix, one RGB triple per coefficient.\<close>

subsection \<open>The constructor\<close>

record PropertyList =
  getInteger :: "string \<Rightarrow> int \<Rightarrow> error + int"
  getString :: "string \<Rightarrow> error + string"
  getStringDefault :: "string \<Rightarrow> string \<Rightarrow> error + string"

text \<open>\<open>getString\<close> is the getter without a default value, \<open>getStringDefault\<close> the one with;
  each may throw.\<close>

definition PRTIntegrator_new :: "PropertyList \<Rightarrow> error + PRTIntegrator" where
  "PRTIntegrator_new props =
     (case getInteger props ''PRTSampleCount'' 100 of
        Inl e \<Rightarrow> Inl e
      | Inr sampleCount \<Rightarrow>
     (case getString props ''cubemap'' of
        Inl e \<Rightarrow> Inl e
      | Inr cubemapPath \<Rightarrow>
     (case getStringDefault props ''type'' ''unshadowed'' of
        Inl e \<Rightarrow> Inl e
      | Inr type \<Rightarrow>
        let this = \<lparr> m_Type = Unshadowed, m_Bounce = 1, m_SampleCount = sampleCount,
                     m_CubemapPath = cubemapPath, m_TransportSHCoeffs = [],
                     m_LightCoeffs = [] \<rparr>
        in if type = ''unshadowed'' then Inr (this\<lparr> m_Type := Unshadowed \<rparr>)
           else if type = ''shadowed'' then Inr (this\<lparr> m_Type := Shadowed \<rparr>)
           else if type = ''interreflection'' then
             (case getInteger props ''bounce'' 1 of
                Inl e \<Rightarrow> Inl e
              | Inr b \<Rightarrow> Inr (this\<lparr> m_Type := Interreflection, m_Bounce := b \<rparr>))
           else Inl (NoriException (''Unsupported type: '' @ type @ ''.'')))))"

subsection \<open>Collaborators and the entropy device\<close>

record externals =
  stbi_loadf :: "string \<Rightarrow> (int \<times> int \<times> int \<times> real list) option"
  resolve :: "string \<Rightarrow> string"
  EvalSH :: "int \<Rightarrow> int \<Rightarrow> vec3 \<Rightarrow> real"
  GetIndex :: "int \<Rightarrow> int \<Rightarrow> nat"
  ToVector :: "real \<Rightarrow> real \<Rightarrow> vec3"
  ProjectFunction ::
    "nat \<Rightarrow> (real \<Rightarrow> real \<Rightarrow> real) \<Rightarrow> int \<Rightarrow> (nat \<Rightarrow> real) \<Rightarrow> error + real list"
  show_float :: "float \<Rightarrow> string"
  show_nat :: "nat \<Rightarrow> string"
  can_open :: "string \<Rightarrow> bool"

text \<open>\<open>stbi_loadf name\<close> is \<open>None\<close> for the null pointer and otherwise the width, the height,
  the channel count of the file and the decoded floats. \<open>ProjectFunction\<close> draws random
  numbers of its own: its last argument is the sequence of variates it receives during
  the call. \<open>show_float\<close> and \<open>show_nat\<close> are the stream's \<^verbatim>\<open><<\<close> on a float and on the
  vertex count. \<open>can_open path\<close> is whether a \<^verbatim>\<open>std::ofstream\<close> can open the path for
  writing: whether its directory is there and can be written to.\<close>

record random_device =
  proj_rng :: "nat \<Rightarrow> nat \<Rightarrow> real"
  bounce_rng :: "nat \<Rightarrow> nat \<Rightarrow> nat \<Rightarrow> nat \<Rightarrow> real \<times> real"

text \<open>
  The source has no seed. Each cell of the bounce sampling grid constructs a
  \<^verbatim>\<open>std::random_device\<close>, seeds a fresh \<^verbatim>\<open>std::mt19937\<close> from it and draws two variates
  from a uniform distribution on [0, 1). No generator state passes from one cell to the
  next, so the embedding takes what the device makes the generator yield as an input
  indexed by the place of the draw: \<open>bounce_rng rd b i t p\<close> is the pair of variates drawn
  in bounce \<open>b\<close> for vertex \<open>i\<close> in cell \<open>(t, p)\<close>, and \<open>proj_rng rd i\<close> the sequence drawn
  inside the call of \<open>ProjectFunction\<close> for vertex \<open>i\<close>.
\<close>

subsection \<open>Loops\<close>

text \<open>A \<^verbatim>\<open>for\<close> loop over the indices \<open>is\<close> whose body may fail: the first failure ends
  the loop.\<close>

fun for_loop :: "('i \<Rightarrow> 's \<Rightarrow> error + 's) \<Rightarrow> 'i list \<Rightarrow> 's \<Rightarrow> error + 's" where
  "for_loop body [] s = Inr s"
| "for_loop body (i # is) s =
     (case body i s of Inl e \<Rightarrow> Inl e | Inr s' \<Rightarrow> for_loop body is s')"

subsection \<open>ProjEnv: loading and projecting the cubemap\<close>

definition cubemapNames :: "string list" where
  "cubemapNames =
     [''negx.jpg'', ''posx.jpg'', ''posy.jpg'', ''negy.jpg'', ''posz.jpg'', ''negz.jpg'']"

text \<open>The body of the loader's loop. The state is \<open>(width, height, channel, images)\<close>.\<close>

definition load_face ::
  "externals \<Rightarrow> string \<Rightarrow> nat \<Rightarrow> int \<times> int \<times> int \<times> real list list
     \<Rightarrow> error + int \<times> int \<times> int \<times> real list list" where
  "load_face ext cubemapDir i st =
     (case st of (width, height, channel, images) \<Rightarrow>
        (case stbi_loadf ext (cubemapDir @ ''/'' @ cubemapNames ! i) of
           None \<Rightarrow> Inl (Exit (- 1))
         | Some (w, h, c, img) \<Rightarrow>
             if i = 0 then Inr (w, h, c, images[i := img])
             else if w \<noteq> width \<or> h \<noteq> height \<or> c \<noteq> channel then Inl (Exit (- 1))
             else Inr (width, height, channel, images[i := img])))"

text \<open>\<^verbatim>\<open>width\<close>, \<^verbatim>\<open>height\<close> and \<^verbatim>\<open>channel\<close> are references to uninitialised integers of the
  caller; the first iteration writes them before any iteration reads them, and the
  embedding starts them at 0.\<close>

definition LoadCubemapImages ::
  "externals \<Rightarrow> string \<Rightarrow> error + int \<times> int \<times> int \<times> real list list" where
  "LoadCubemapImages ext cubemapDir =
     for_loop (load_face ext cubemapDir) [0..<6] (0, 0, 0, replicate 6 [])"

definition cubemapFaceDirections :: "(vec3 \<times> vec3 \<times> vec3) list" where
  "cubemapFaceDirections =
     [((0, 0, 1), (0, - 1, 0), (- 1, 0, 0)),
      ((0, 0, 1), (0, - 1, 0), (1, 0, 0)),
      ((1, 0, 0), (0, 0, - 1), (0, - 1, 0)),
      ((1, 0, 0), (0, 0, 1), (0, 1, 0)),
      ((- 1, 0, 0), (0, - 1, 0), (0, 0, - 1)),
      ((1, 0, 0), (0, - 1, 0), (0, 0, 1))]"

definition atan2 :: "real \<Rightarrow> real \<Rightarrow> real" where
  "atan2 y x =
     (if x > 0 then arctan (y / x)
      else if x < 0 \<and> y \<ge> 0 then arctan (y / x) + pi
      else if x < 0 then arctan (y / x) - pi
      else if y > 0 then pi / 2
      else if y < 0 then - pi / 2
      else 0)"

definition CalcPreArea :: "real \<Rightarrow> real \<Rightarrow> real" where
  "CalcPreArea x y = atan2 (x * y) (sqrt (x * x + y * y + 1))"

definition CalcArea :: "real \<Rightarrow> real \<Rightarrow> int \<Rightarrow> int \<Rightarrow> real" where
  "CalcArea u0 v0 width height =
     (let u = (2 * (u0 + 1 / 2) / real_of_int width) - 1;
          v = (2 * (v0 + 1 / 2) / real_of_int height) - 1;
          invResolutionW = 1 / real_of_int width;
          invResolutionH = 1 / real_of_int height;
          x0 = u - invResolutionW;
          y0 = v - invResolutionH;
          x1 = u + invResolutionW;
          y1 = v + invResolutionH;
          angle = CalcPreArea x0 y0 - CalcPreArea x0 y1 - CalcPreArea x1 y0 + CalcPreArea x1 y1
      in angle)"

definition texels :: "int \<Rightarrow> int \<Rightarrow> (nat \<times> nat \<times> nat) list" where
  "texels width height =
     concat (map (\<lambda>i. concat (map (\<lambda>y. map (\<lambda>x. (i, y, x)) [0..<nat width]) [0..<nat height]))
       [0..<6])"

definition texel_dir :: "int \<Rightarrow> int \<Rightarrow> nat \<times> nat \<times> nat \<Rightarrow> vec3" where
  "texel_dir width height iyx =
     (case iyx of (i, y, x) \<Rightarrow>
        (case cubemapFaceDirections ! i of (faceDirX, faceDirY, faceDirZ) \<Rightarrow>
           let u = 2 * ((real x + 1 / 2) / real_of_int width) - 1;
               v = 2 * ((real y + 1 / 2) / real_of_int height) - 1
           in normalized (add3 (add3 (scale3 u faceDirX) (scale3 v faceDirY)) faceDirZ)))"

definition cubemapDirs :: "int \<Rightarrow> int \<Rightarrow> vec3 list" where
  "cubemapDirs width height = map (texel_dir width height) (texels width height)"

definition bands :: "(int \<times> int) list" where
  "bands = concat (map (\<lambda>l. map (\<lambda>m. (l, m)) [- l..l]) [0..int SHOrder])"

text \<open>The innermost loops of the projector, over \<open>l\<close> and \<open>m\<close>, for one texel.\<close>

definition project_band ::
  "externals \<Rightarrow> vec3 \<Rightarrow> vec3 \<Rightarrow> real \<Rightarrow> int \<times> int \<Rightarrow> vec3 list \<Rightarrow> error + vec3 list" where
  "project_band ext dir Le deltaW lm SHCoeffiecents =
     (case lm of (l, m) \<Rightarrow>
        let SHBasicFucValue = EvalSH ext l m (normalized dir);
            k = GetIndex ext l m
        in if k < length SHCoeffiecents
           then Inr (SHCoeffiecents[k := add3 (SHCoeffiecents ! k)
                                             (scale3 (SHBasicFucValue * deltaW) Le)])
           else Inl OutOfBounds)"

definition project_texel ::
  "externals \<Rightarrow> real list list \<Rightarrow> int \<Rightarrow> int \<Rightarrow> int \<Rightarrow> nat \<times> nat \<times> nat \<Rightarrow> vec3 list
     \<Rightarrow> error + vec3 list" where
  "project_texel ext images width height channel iyx SHCoeffiecents =
     (case iyx of (i, y, x) \<Rightarrow>
        let k = i * nat width * nat height + y * nat width + x;
            index = (int y * width + int x) * channel
        in if k < length (cubemapDirs width height) \<and> i < length images \<and> 0 \<le> index
              \<and> nat index + 2 < length (images ! i)
           then
             let dir = cubemapDirs width height ! k;
                 Le = (images ! i ! nat index, images ! i ! (nat index + 1),
                       images ! i ! (nat index + 2));
                 deltaW = CalcArea (real x) (real y) width height
             in for_loop (project_band ext dir Le deltaW) bands SHCoeffiecents
           else Inl OutOfBounds)"

definition PrecomputeCubemapSH ::
  "externals \<Rightarrow> real list list \<Rightarrow> int \<Rightarrow> int \<Rightarrow> int \<Rightarrow> error + vec3 list" where
  "PrecomputeCubemapSH ext images width height channel =
     for_loop (project_texel ext images width height channel) (texels width height)
       (replicate SHCoeffLength (0, 0, 0))"

subsection \<open>preprocess: the transport function and its projection\<close>

definition shFunc ::
  "externals \<Rightarrow> Type \<Rightarrow> Scene \<Rightarrow> vec3 \<Rightarrow> vec3 \<Rightarrow> real \<Rightarrow> real \<Rightarrow> real" where
  "shFunc ext type scene v n phi theta =
     (let d = ToVector ext phi theta;
          wi = d;
          cosain = dot (normalized wi) (normalized n)
      in if type = Unshadowed then (if cosain > 0 then cosain else 0)
         else
           (let sampleRay = (v, wi)
            in if cosain > 0 \<and> rayIntersect scene sampleRay = None then cosain else 0))"

text \<open>The body of the loop over the vertices: the projection of vertex \<open>i\<close> and the copy of
  its coefficients into column \<open>i\<close>.\<close>

definition project_vertex ::
  "externals \<Rightarrow> PRTIntegrator \<Rightarrow> Scene \<Rightarrow> Mesh \<Rightarrow> random_device \<Rightarrow> nat \<Rightarrow> float list list
     \<Rightarrow> error + float list list" where
  "project_vertex ext this scene mesh rd i TransportSHCoeffs =
     (if i < length (VertexPositions mesh) \<and> i < length (VertexNormals mesh)
         \<and> i < length TransportSHCoeffs
      then
        let v = VertexPositions mesh ! i;
            n = VertexNormals mesh ! i
        in (case ProjectFunction ext SHOrder (shFunc ext (m_Type this) scene v n)
                   (m_SampleCount this) (proj_rng rd i) of
              Inl e \<Rightarrow> Inl e
            | Inr shCoeff \<Rightarrow>
                if length shCoeff \<le> length (TransportSHCoeffs ! i)
                then Inr (TransportSHCoeffs
                            [i := map Finite shCoeff
                                  @ drop (length shCoeff) (TransportSHCoeffs ! i)])
                else Inl OutOfBounds)
      else Inl OutOfBounds)"

subsection \<open>preprocess: the interreflection bounces\<close>

text \<open>The side of the sampling grid, \<^verbatim>\<open>static_cast<int>(floor(sqrt(m_SampleCount)))\<close>.
  For a negative count, whose square root is NaN in the source, the value here is
  negative: the loops over the grid do not run.\<close>

definition sample_side :: "int \<Rightarrow> int" where
  "sample_side sampleCount = \<lfloor>sqrt (real_of_int sampleCount)\<rfloor>"

definition interpolateSH :: "float list list \<Rightarrow> Intersection \<Rightarrow> nat \<Rightarrow> float" where
  "interpolateSH TransportSHCoeffs its j =
     (case tri_index its of (ix, iy, iz) \<Rightarrow>
        TransportSHCoeffs ! ix ! j * Finite (vx (bary its))
        + TransportSHCoeffs ! iy ! j * Finite (vy (bary its))
        + TransportSHCoeffs ! iz ! j * Finite (vz (bary its)))"

text \<open>The body of the two sampling loops: cell \<open>(t, p)\<close> of the grid, with the pair of
  variates \<open>r\<close> drawn there.\<close>

definition bounce_sample ::
  "externals \<Rightarrow> Scene \<Rightarrow> float list list \<Rightarrow> vec3 \<Rightarrow> vec3 \<Rightarrow> int \<Rightarrow> real \<times> real \<Rightarrow> nat \<Rightarrow> nat
     \<Rightarrow> float list \<Rightarrow> error + float list" where
  "bounce_sample ext scene TransportSHCoeffs v n side r t p ExtraCoeffs =
     (let alpha = (real t + fst r) / real_of_int side;
          beta = (real p + snd r) / real_of_int side;
          phi = 2 * pi * beta;
          theta = arccos (2 * alpha - 1);
          d = ToVector ext phi theta;
          wi = d;
          cosain = dot (normalized wi) (normalized n);
          sampleRay = (v, wi)
      in if cosain > 0
         then
           (case rayIntersect scene sampleRay of
              None \<Rightarrow> Inr ExtraCoeffs
            | Some its \<Rightarrow>
                (case tri_index its of (ix, iy, iz) \<Rightarrow>
                   if ix < length TransportSHCoeffs \<and> iy < length TransportSHCoeffs
                      \<and> iz < length TransportSHCoeffs
                   then Inr (map (\<lambda>j. ExtraCoeffs ! j
                                       + interpolateSH TransportSHCoeffs its j * Finite cosain)
                               [0..<SHCoeffLength])
                   else Inl OutOfBounds))
         else Inr ExtraCoeffs)"

text \<open>The Monte Carlo sum of one vertex, before the weight.\<close>

definition bounce_samples ::
  "externals \<Rightarrow> PRTIntegrator \<Rightarrow> Scene \<Rightarrow> Mesh \<Rightarrow> (nat \<Rightarrow> nat \<Rightarrow> real \<times> real) \<Rightarrow> nat
     \<Rightarrow> error + float list" where
  "bounce_samples ext this scene mesh rng i =
     (if i < length (VertexPositions mesh) \<and> i < length (VertexNormals mesh)
      then
        let v = VertexPositions mesh ! i;
            n = VertexNormals mesh ! i;
            side = sample_side (m_SampleCount this)
        in for_loop
             (\<lambda>t. for_loop
                    (\<lambda>p. bounce_sample ext scene (m_TransportSHCoeffs this) v n side (rng t p) t p)
                    [0..<nat side])
             [0..<nat side] (replicate SHCoeffLength 0)
      else Inl OutOfBounds)"

text \<open>The weight, \<^verbatim>\<open>4.0 * M_PI / (sample_side * sample_side)\<close>. For a sample count of 0
  the grid is empty and the division is one by zero: the weight is infinite. For a
  negative count the square root is NaN, whose conversion to \<^verbatim>\<open>int\<close> C++ leaves
  undefined; the usual targets give the smallest \<^verbatim>\<open>int\<close>, whose square wraps to 0, and
  the embedding takes that case with the empty grid.\<close>

definition bounce_weight :: "int \<Rightarrow> float" where
  "bounce_weight sampleCount =
     (let side = sample_side sampleCount
      in if side \<le> 0 then PInf
         else Finite (4 * pi / real_of_int (side * side)))"

text \<open>The coefficients of vertex \<open>i\<close> for one bounce: \<^verbatim>\<open>ExtraCoeffs\<close> after the scaling.\<close>

definition bounce_coeffs ::
  "externals \<Rightarrow> PRTIntegrator \<Rightarrow> Scene \<Rightarrow> Mesh \<Rightarrow> (nat \<Rightarrow> nat \<Rightarrow> real \<times> real) \<Rightarrow> nat
     \<Rightarrow> error + float list" where
  "bounce_coeffs ext this scene mesh rng i =
     (case bounce_samples ext this scene mesh rng i of
        Inl e \<Rightarrow> Inl e
      | Inr ExtraCoeffs \<Rightarrow>
          let weight = bounce_weight (m_SampleCount this)
          in Inr (map (\<lambda>c. c * weight) ExtraCoeffs))"

text \<open>The body of the loop over the vertices of one bounce: the state is
  \<^verbatim>\<open>extraCoeffsBuffer\<close>, whose column \<open>i\<close> receives the coefficients.\<close>

definition bounce_vertex ::
  "externals \<Rightarrow> PRTIntegrator \<Rightarrow> Scene \<Rightarrow> Mesh \<Rightarrow> (nat \<Rightarrow> nat \<Rightarrow> nat \<Rightarrow> real \<times> real) \<Rightarrow> nat
     \<Rightarrow> float list list \<Rightarrow> error + float list list" where
  "bounce_vertex ext this scene mesh rng i extraCoeffsBuffer =
     (case bounce_coeffs ext this scene mesh (rng i) i of
        Inl e \<Rightarrow> Inl e
      | Inr ExtraCoeffs \<Rightarrow>
          if i < length extraCoeffsBuffer
          then Inr (extraCoeffsBuffer[i := ExtraCoeffs])
          else Inl OutOfBounds)"

definition matrix_add :: "float list list \<Rightarrow> float list list \<Rightarrow> float list list" where
  "matrix_add A B = map2 (map2 (+)) A B"

text \<open>One bounce. The buffer is allocated uninitialised (here: zero); every column is
  written before the addition reads it.\<close>

definition bounce ::
  "externals \<Rightarrow> Scene \<Rightarrow> Mesh \<Rightarrow> random_device \<Rightarrow> nat \<Rightarrow> PRTIntegrator
     \<Rightarrow> error + PRTIntegrator" where
  "bounce ext scene mesh rd bounceCount this =
     (case for_loop (bounce_vertex ext this scene mesh (bounce_rng rd bounceCount))
             [0..<getVertexCount mesh]
             (replicate (getVertexCount mesh) (replicate SHCoeffLength 0)) of
        Inl e \<Rightarrow> Inl e
      | Inr extraCoeffsBuffer \<Rightarrow>
          Inr (this\<lparr> m_TransportSHCoeffs :=
                       matrix_add (m_TransportSHCoeffs this) extraCoeffsBuffer \<rparr>))"

text \<open>The first \<open>k\<close> bounces; the source runs \<open>bounces\<close> with \<open>k = m_Bounce\<close>.\<close>

definition bounces ::
  "externals \<Rightarrow> Scene \<Rightarrow> Mesh \<Rightarrow> random_device \<Rightarrow> nat \<Rightarrow> PRTIntegrator
     \<Rightarrow> error + PRTIntegrator" where
  "bounces ext scene mesh rd k this = for_loop (bounce ext scene mesh rd) [1..<Suc k] this"

subsection \<open>preprocess: the output files\<close>

type_synonym filesystem = "string \<rightharpoonup> string"

record ofstream =
  stream_path :: string
  is_open :: bool

text \<open>The constructor of \<^verbatim>\<open>std::ofstream\<close> on a path: when the path can be opened, the
  file is created, or the one that is there is emptied; when it cannot, the stream is
  not open, and the source does not test it. A write to a stream that is not open does
  nothing. Every line the source writes ends in \<^verbatim>\<open>std::endl\<close>, which flushes: a write to
  an open stream is an append to the file.\<close>

definition ofstream_open :: "externals \<Rightarrow> filesystem \<Rightarrow> string \<Rightarrow> ofstream \<times> filesystem" where
  "ofstream_open ext fs path =
     (if can_open ext path
      then (\<lparr> stream_path = path, is_open = True \<rparr>, fs(path \<mapsto> []))
      else (\<lparr> stream_path = path, is_open = False \<rparr>, fs))"

definition ofstream_write :: "ofstream \<Rightarrow> filesystem \<Rightarrow> string \<Rightarrow> filesystem" where
  "ofstream_write stream fs text =
     (if is_open stream
      then fs(stream_path stream \<mapsto>
                (case fs (stream_path stream) of None \<Rightarrow> text | Some content \<Rightarrow> content @ text))
      else fs)"

definition endl :: string where
  "endl = [CHR 0x0A]"

definition light_line :: "externals \<Rightarrow> vec3 \<Rightarrow> string" where
  "light_line ext c =
     show_float ext (Finite (vx c)) @ '' '' @ show_float ext (Finite (vy c)) @ '' ''
     @ show_float ext (Finite (vz c)) @ endl"

definition coeff_line :: "externals \<Rightarrow> float list \<Rightarrow> string" where
  "coeff_line ext column =
     concat (map (\<lambda>j. show_float ext (column ! j) @ '' '') [0..<SHCoeffLength]) @ endl"

text \<open>The body of the loop that saves in face format: the three lines of face \<open>f\<close>.\<close>

definition save_face ::
  "externals \<Rightarrow> PRTIntegrator \<Rightarrow> ofstream \<Rightarrow> nat \<times> nat \<times> nat \<Rightarrow> filesystem
     \<Rightarrow> error + filesystem" where
  "save_face ext this fout f fs =
     (case f of (idx0, idx1, idx2) \<Rightarrow>
        let M = m_TransportSHCoeffs this
        in if idx0 < length M \<and> idx1 < length M \<and> idx2 < length M
           then Inr (ofstream_write fout
                       (ofstream_write fout
                          (ofstream_write fout fs (coeff_line ext (M ! idx0)))
                          (coeff_line ext (M ! idx1)))
                       (coeff_line ext (M ! idx2)))
           else Inl OutOfBounds)"

subsection \<open>preprocess\<close>

text \<open>
  The source's \<^verbatim>\<open>preprocess\<close> is one function in four parts, which its comments name:
  the projection of the environment, the projection of the transport, the bounces, and
  the saving in face format. The embedding gives the first three a definition each.

  The projection of the environment: loading the six faces, projecting them, writing one
  line per coefficient to the light file and keeping the coefficients in \<open>m_LightCoeffs\<close>.
\<close>

definition projection_environment ::
  "externals \<Rightarrow> PRTIntegrator \<Rightarrow> string \<Rightarrow> ofstream \<Rightarrow> filesystem
     \<Rightarrow> error + PRTIntegrator \<times> filesystem" where
  "projection_environment ext this cubePath lightFout fs =
     (case LoadCubemapImages ext cubePath of
        Inl e \<Rightarrow> Inl e
      | Inr (width, height, channel, images) \<Rightarrow>
          (case PrecomputeCubemapSH ext images width height channel of
             Inl e \<Rightarrow> Inl e
           | Inr envCoeffs \<Rightarrow>
               Inr (this\<lparr> m_LightCoeffs := envCoeffs \<rparr>,
                    ofstream_write lightFout fs (concat (map (light_line ext) envCoeffs)))))"

text \<open>The projection of the transport. \<^verbatim>\<open>resize\<close> leaves the matrix uninitialised (here:
  zero); the loop writes every column before anything reads it.\<close>

definition projection_transport ::
  "externals \<Rightarrow> PRTIntegrator \<Rightarrow> Scene \<Rightarrow> Mesh \<Rightarrow> random_device \<Rightarrow> error + PRTIntegrator" where
  "projection_transport ext this scene mesh rd =
     (let this1 = this\<lparr> m_TransportSHCoeffs :=
                          replicate (getVertexCount mesh) (replicate SHCoeffLength 0) \<rparr>
      in (case for_loop (project_vertex ext this1 scene mesh rd) [0..<getVertexCount mesh]
                 (m_TransportSHCoeffs this1) of
            Inl e \<Rightarrow> Inl e
          | Inr TransportSHCoeffs \<Rightarrow> Inr (this1\<lparr> m_TransportSHCoeffs := TransportSHCoeffs \<rparr>)))"

definition interreflection ::
  "externals \<Rightarrow> PRTIntegrator \<Rightarrow> Scene \<Rightarrow> Mesh \<Rightarrow> random_device \<Rightarrow> error + PRTIntegrator" where
  "interreflection ext this scene mesh rd =
     (if m_Type this = Interreflection
      then bounces ext scene mesh rd (nat (m_Bounce this)) this
      else Inr this)"

text \<open>
  The result of \<open>preprocess\<close> is the outcome (the integrator with its two matrices, or the
  error that ended the run) and the file system the run leaves. The messages on the
  standard output are left out. After \<open>OutOfBounds\<close> the source's behaviour is not
  defined, and the file system given is the one before the failing part.
\<close>

definition preprocess ::
  "externals \<Rightarrow> PRTIntegrator \<Rightarrow> Scene \<Rightarrow> random_device \<Rightarrow> filesystem
     \<Rightarrow> (error + PRTIntegrator) \<times> filesystem" where
  "preprocess ext this scene rd fs =
     (case getMeshes scene of
        [] \<Rightarrow> (Inl OutOfBounds, fs)
      | mesh # _ \<Rightarrow>
          let cubePath = resolve ext (m_CubemapPath this);
              lightPath = cubePath @ ''/light.txt'';
              transPath = cubePath @ ''/transport.txt'';
              (lightFout, fs1) = ofstream_open ext fs lightPath;
              (fout, fs2) = ofstream_open ext fs1 transPath
          in (case projection_environment ext this cubePath lightFout fs2 of
                Inl e \<Rightarrow> (Inl e, fs2)
              | Inr (this1, fs3) \<Rightarrow>
          let fs4 = ofstream_write fout fs3 (show_nat ext (getVertexCount mesh) @ endl)
          in (case projection_transport ext this1 scene mesh rd of
                Inl e \<Rightarrow> (Inl e, fs4)
              | Inr this3 \<Rightarrow>
             (case interreflection ext this3 scene mesh rd of
                Inl e \<Rightarrow> (Inl e, fs4)
              | Inr this4 \<Rightarrow>
             (case for_loop (save_face ext this4 fout) (Indices mesh) fs4 of
                Inl e \<Rightarrow> (Inl e, fs4)
              | Inr fs5 \<Rightarrow> (Inr this4, fs5))))))"

subsection \<open>Li\<close>

definition dotSH :: "float list \<Rightarrow> float list \<Rightarrow> float" where
  "dotSH a b = sum_list (map2 (*) a b)"

definition Li :: "PRTIntegrator \<Rightarrow> Scene \<Rightarrow> Ray3f \<Rightarrow> error + Color3f" where
  "Li this scene ray =
     (case rayIntersect scene ray of
        None \<Rightarrow> Inr (0, 0, 0)
      | Some its \<Rightarrow>
          (case tri_index its of (ix, iy, iz) \<Rightarrow>
             let M = m_TransportSHCoeffs this
             in if ix < length M \<and> iy < length M \<and> iz < length M
                   \<and> length (M ! ix) = SHCoeffLength \<and> length (M ! iy) = SHCoeffLength
                   \<and> length (M ! iz) = SHCoeffLength
                   \<and> length (m_LightCoeffs this) = SHCoeffLength
                then
                  let sh0 = M ! ix; sh1 = M ! iy; sh2 = M ! iz;
                      rL = map (\<lambda>c. Finite (vx c)) (m_LightCoeffs this);
                      gL = map (\<lambda>c. Finite (vy c)) (m_LightCoeffs this);
                      bL = map (\<lambda>c. Finite (vz c)) (m_LightCoeffs this);
                      c0 = (dotSH rL sh0, dotSH gL sh0, dotSH bL sh0);
                      c1 = (dotSH rL sh1, dotSH gL sh1, dotSH bL sh1);
                      c2 = (dotSH rL sh2, dotSH gL sh2, dotSH bL sh2);
                      bx = Finite (vx (bary its));
                      by = Finite (vy (bary its));
                      bz = Finite (vz (bary its));
                      c = (bx * fst c0 + by * fst c1 + bz * fst c2,
                           bx * fst (snd c0) + by * fst (snd c1) + bz * fst (snd c2),
                           bx * snd (snd c0) + by * snd (snd c1) + bz * snd (snd c2))
                  in Inr c
                else Inl OutOfBounds))"

text \<open>The matrices of an integrator that has not run \<^verbatim>\<open>preprocess\<close> are empty, and the
  fixed-size vectors of \<^verbatim>\<open>Li\<close> need columns and rows of \<open>SHCoeffLength\<close> entries: a hit
  outside these sizes is \<open>OutOfBounds\<close>.\<close>

section \<open>Descriptions used in the statements\<close>

text \<open>The colour of vertex \<open>k\<close>: per channel, the dot product of the vertex's transport
  vector with the channel's row of the light matrix.\<close>

definition vertex_color :: "PRTIntegrator \<Rightarrow> nat \<Rightarrow> Color3f" where
  "vertex_color this k =
     ((\<Sum>j<SHCoeffLength. Finite (vx (m_LightCoeffs this ! j)) * m_TransportSHCoeffs this ! k ! j),
      (\<Sum>j<SHCoeffLength. Finite (vy (m_LightCoeffs this ! j)) * m_TransportSHCoeffs this ! k ! j),
      (\<Sum>j<SHCoeffLength. Finite (vz (m_LightCoeffs this ! j)) * m_TransportSHCoeffs this ! k ! j))"

text \<open>A transport matrix of \<open>V\<close> columns of \<open>SHCoeffLength\<close> coefficients.\<close>

definition shaped :: "nat \<Rightarrow> float list list \<Rightarrow> bool" where
  "shaped V M = (length M = V \<and> (\<forall>col \<in> set M. length col = SHCoeffLength))"

text \<open>The transport file as a list of lines: a coefficient row holds the nine
  coefficients of a column, each followed by a space; a face contributes the rows of its
  three vertices; the first line is the vertex count. \<open>unlines\<close> ends every line with
  \<open>endl\<close>.\<close>

definition coeff_row :: "externals \<Rightarrow> float list \<Rightarrow> string" where
  "coeff_row ext column =
     show_float ext (column ! 0) @ '' '' @ show_float ext (column ! 1) @ '' ''
     @ show_float ext (column ! 2) @ '' '' @ show_float ext (column ! 3) @ '' ''
     @ show_float ext (column ! 4) @ '' '' @ show_float ext (column ! 5) @ '' ''
     @ show_float ext (column ! 6) @ '' '' @ show_float ext (column ! 7) @ '' ''
     @ show_float ext (column ! 8) @ '' ''"

definition face_rows :: "externals \<Rightarrow> float list list \<Rightarrow> nat \<times> nat \<times> nat \<Rightarrow> string list" where
  "face_rows ext M f =
     (case f of (idx0, idx1, idx2) \<Rightarrow>
        [coeff_row ext (M ! idx0), coeff_row ext (M ! idx1), coeff_row ext (M ! idx2)])"

definition transport_file_lines :: "externals \<Rightarrow> Mesh \<Rightarrow> float list list \<Rightarrow> string list" where
  "transport_file_lines ext mesh M =
     show_nat ext (getVertexCount mesh)
     # concat (map (face_rows ext M) (Indices mesh))"

definition unlines :: "string list \<Rightarrow> string" where
  "unlines ls = concat (map (\<lambda>l. l @ endl) ls)"

text \<open>What the sample of cell \<open>(t, p)\<close> adds to coefficient \<open>j\<close> of a vertex: the
  interpolated coefficient of the triangle hit times the cosine, and nothing when the
  cosine is not positive or the ray hits nothing.\<close>

definition sample_contribution ::
  "externals \<Rightarrow> Scene \<Rightarrow> float list list \<Rightarrow> vec3 \<Rightarrow> vec3 \<Rightarrow> int \<Rightarrow> real \<times> real \<Rightarrow> nat \<Rightarrow> nat
     \<Rightarrow> nat \<Rightarrow> float" where
  "sample_contribution ext scene M v n side r t p j =
     (let wi = ToVector ext (2 * pi * ((real p + snd r) / real_of_int side))
                 (arccos (2 * ((real t + fst r) / real_of_int side) - 1));
          cosain = dot (normalized wi) (normalized n)
      in if cosain > 0
         then (case rayIntersect scene (v, wi) of
                 None \<Rightarrow> 0
               | Some its \<Rightarrow> interpolateSH M its j * Finite cosain)
         else 0)"

text \<open>Two scenes whose ray queries report, for every ray, the same hit or miss with the
  same vertex indices and barycentric weights; which mesh was hit may differ.\<close>

definition same_hits :: "Scene \<Rightarrow> Scene \<Rightarrow> bool" where
  "same_hits scene scene' =
     (\<forall>ray. map_option (\<lambda>its. (tri_index its, bary its)) (rayIntersect scene ray)
            = map_option (\<lambda>its. (tri_index its, bary its)) (rayIntersect scene' ray))"

text \<open>The fatal asset error: one of the six faces does not load, or loads with a width,
  height or channel count other than those of the first face.\<close>

definition face_dims :: "externals \<Rightarrow> string \<Rightarrow> nat \<Rightarrow> (int \<times> int \<times> int) option" where
  "face_dims ext cubemapDir i =
     map_option (\<lambda>(w, h, c, img). (w, h, c)) (stbi_loadf ext (cubemapDir @ ''/'' @ cubemapNames ! i))"

definition fatal_asset_error :: "externals \<Rightarrow> string \<Rightarrow> bool" where
  "fatal_asset_error ext cubemapDir =
     list_ex (\<lambda>i. face_dims ext cubemapDir i = None
                 \<or> face_dims ext cubemapDir i \<noteq> face_dims ext cubemapDir 0) [0..<6]"

section \<open>Example inputs\<close>

text \<open>
  A scene of two meshes: a triangle at the origin facing \<open>+x\<close>, which is the mesh the
  transport is computed for, and a wall at \<open>x = 5\<close>. The ray query stands for the wall: a
  ray from the origin with a positive \<open>x\<close> direction hits it. The library is stood in for
  by \<open>example_ext\<close>: six white faces of one texel, a projection that evaluates the
  transport function in the one direction \<open>(1, 0, 0)\<close>, the conversion from spherical
  angles of the sh library, a formatting that tells 0, 1, NaN and the other numbers
  apart, and an output directory in which every file can be opened. The integrator is
  configured for one bounce with one sample. In \<open>example_ext_missing\<close> the last face of
  the cubemap is missing; in \<open>example_ext_nodir\<close> the cubemap directory is, so that no
  face loads and no output file can be opened.
\<close>

definition example_props :: PropertyList where
  "example_props =
     \<lparr> getInteger = (\<lambda>name d. Inr d),
       getString = (\<lambda>name. Inr ''cubemap/Indoor''),
       getStringDefault = (\<lambda>name d. Inr ''diffuse'') \<rparr>"

text \<open>Modelled from the spec: the conversion of a spherical parameterisation \<open>(phi, theta)\<close>
  to a Cartesian unit vector (\<^verbatim>\<open>sh::ToVector\<close>, which \<^verbatim>\<open>prt.cpp\<close> calls and does not define), with
  \<open>theta\<close> the angle from the \<open>z\<close> axis and \<open>phi\<close> the angle around it. Only the example uses
  it.\<close>

definition sh_ToVector :: "real \<Rightarrow> real \<Rightarrow> vec3" where
  "sh_ToVector phi theta = (sin theta * cos phi, sin theta * sin phi, cos theta)"

definition example_hit :: Intersection where
  "example_hit = \<lparr> tri_index = (0, 1, 2), bary = (1 / 2, 1 / 4, 1 / 4), its_mesh = 1 \<rparr>"

definition example_mesh :: Mesh where
  "example_mesh =
     \<lparr> VertexPositions = [(0, 0, 0), (0, 1, 0), (0, 0, 1)],
       VertexNormals = [(1, 0, 0), (1, 0, 0), (1, 0, 0)],
       Indices = [(0, 1, 2)] \<rparr>"

definition example_wall :: Mesh where
  "example_wall =
     \<lparr> VertexPositions = [(5, - 1, - 1), (5, 3, - 1), (5, - 1, 3)],
       VertexNormals = [(- 1, 0, 0), (- 1, 0, 0), (- 1, 0, 0)],
       Indices = [(0, 1, 2)] \<rparr>"

definition example_scene :: Scene where
  "example_scene =
     \<lparr> getMeshes = [example_mesh, example_wall],
       rayIntersect =
         (\<lambda>ray. if fst ray = (0, 0, 0) \<and> vx (snd ray) > 0 then Some example_hit else None) \<rparr>"

definition example_this :: PRTIntegrator where
  "example_this =
     \<lparr> m_Type = Interreflection, m_Bounce = 1, m_SampleCount = 1,
       m_CubemapPath = ''cubemap/Indoor'',
       m_TransportSHCoeffs =
         map (map Finite)
           [[1, 0, 0, 0, 0, 0, 0, 0, 0], [2, 0, 0, 0, 0, 0, 0, 0, 0], [3, 0, 0, 0, 0, 0, 0, 0, 0]],
       m_LightCoeffs =
         [(1, 1 / 2, 1 / 4), (0, 0, 0), (0, 0, 0), (0, 0, 0), (0, 0, 0), (0, 0, 0), (0, 0, 0),
          (0, 0, 0), (0, 0, 0)] \<rparr>"

definition example_ext :: externals where
  "example_ext =
     \<lparr> stbi_loadf = (\<lambda>name. Some (1, 1, 3, [1, 1, 1])),
       resolve = (\<lambda>path. path),
       EvalSH = (\<lambda>l m d. if l = 0 then 1 / (2 * sqrt pi) else 0),
       GetIndex = (\<lambda>l m. nat (l * (l + 1) + m)),
       ToVector = sh_ToVector,
       ProjectFunction = (\<lambda>order f sample_count rng. Inr (f 0 (pi / 2) # replicate 8 0)),
       show_float = (\<lambda>x. if x = Finite 0 then ''0'' else if x = Finite 1 then ''1''
                          else if x = NaN then ''nan'' else ''x''),
       show_nat = (\<lambda>n. if n = 3 then ''3'' else ''n''),
       can_open = (\<lambda>path. True) \<rparr>"

definition example_rd :: random_device where
  "example_rd = \<lparr> proj_rng = (\<lambda>i k. 0), bounce_rng = (\<lambda>b i t p. (1 / 2, 0)) \<rparr>"

definition example_rd' :: random_device where
  "example_rd' = \<lparr> proj_rng = (\<lambda>i k. 0), bounce_rng = (\<lambda>b i t p. (1 / 2, 1 / 2)) \<rparr>"

definition example_matrix :: "real \<Rightarrow> real \<Rightarrow> real \<Rightarrow> float list list" where
  "example_matrix a b c =
     map (map Finite)
       [[a, 0, 0, 0, 0, 0, 0, 0, 0], [b, 0, 0, 0, 0, 0, 0, 0, 0], [c, 0, 0, 0, 0, 0, 0, 0, 0]]"

definition example_images :: "real list list" where
  "example_images = [[1, 1, 1], [1, 1, 1], [1, 1, 1], [1, 1, 1], [1, 1, 1], [1, 1, 1]]"

definition example_rd_far :: random_device where
  "example_rd_far =
     \<lparr> proj_rng = (\<lambda>i k. 0),
       bounce_rng = (\<lambda>b i t p. if b = 1 then (1 / 2, 0) else (0, 0)) \<rparr>"

definition example_ext_nodir :: externals where
  "example_ext_nodir =
     example_ext\<lparr> stbi_loadf := (\<lambda>name. None), can_open := (\<lambda>path. False) \<rparr>"

definition example_ext_missing :: externals where
  "example_ext_missing =
     example_ext\<lparr> stbi_loadf :=
       (\<lambda>name. if name = ''cubemap/Indoor/negz.jpg'' then None else Some (1, 1, 3, [1, 1, 1])) \<rparr>"

section \<open>Properties\<close>

subsection \<open>Floating-point values\<close>

lemma Finite_add [simp]: "Finite x + Finite y = Finite (x + y)"
  by (simp add: plus_float_def)

lemma Finite_mult [simp]: "Finite x * Finite y = Finite (x * y)"
  by (simp add: times_float_def)

lemma Finite_le [simp]: "Finite x \<le> Finite y \<longleftrightarrow> x \<le> y"
  by (simp add: less_eq_float_def)

lemma NaN_add [simp]: "NaN + a = NaN" "a + NaN = NaN"
  by (cases a; simp add: plus_float_def)+

lemma NaN_le [simp]: "\<not> a \<le> NaN" "\<not> NaN \<le> a"
  by (cases a; simp add: less_eq_float_def)+

lemma zero_times_PInf [simp]: "0 * PInf = NaN"
  by (simp add: times_float_def zero_float_def)

subsection \<open>Loops\<close>

lemma for_loop_append:
  "for_loop body (xs @ ys) s =
     (case for_loop body xs s of Inl e \<Rightarrow> Inl e | Inr s' \<Rightarrow> for_loop body ys s')"
  by (induction xs arbitrary: s) (auto split: sum.splits)

lemma for_loop_cong:
  "(\<And>i s. i \<in> set xs \<Longrightarrow> body i s = body' i s) \<Longrightarrow> for_loop body xs s = for_loop body' xs s"
  by (induction xs arbitrary: s) (auto split: sum.splits)

lemma for_loop_invariant:
  assumes "for_loop body xs s = Inr s'" and "P s"
    and "\<And>i t t'. i \<in> set xs \<Longrightarrow> P t \<Longrightarrow> body i t = Inr t' \<Longrightarrow> P t'"
  shows "P s'"
  using assms
proof (induction xs arbitrary: s)
  case Nil
  then show ?case by simp
next
  case (Cons x xs)
  from Cons.prems(1) obtain t where t: "body x s = Inr t" and rest: "for_loop body xs t = Inr s'"
    by (auto split: sum.splits)
  have "P t" using Cons.prems(3) [of x s t] Cons.prems(2) t by simp
  then show ?case using Cons.IH [OF rest] Cons.prems(3) by (metis list.set_intros(2))
qed

subsection \<open>The constructor\<close>

text \<open>
  Claim C7. A configuration whose policy string is none of \<open>unshadowed\<close>, \<open>shadowed\<close> and
  \<open>interreflection\<close> makes the constructor raise: it returns an error and no integrator,
  so that no \<open>preprocess\<close> can follow. When the two properties read before the policy
  were read without an exception, the error is the exception \<open>Unsupported type\<close>. The
  constructor has neither the file system nor the image decoder among its arguments: it
  loads, projects and writes nothing.
\<close>

theorem unsupported_type_raises:
  assumes "getStringDefault props ''type'' ''unshadowed'' = Inr type"
    and "type \<noteq> ''unshadowed''" and "type \<noteq> ''shadowed''" and "type \<noteq> ''interreflection''"
  shows "(\<exists>e. PRTIntegrator_new props = Inl e)
       \<and> (\<forall>n c. getInteger props ''PRTSampleCount'' 100 = Inr n \<longrightarrow> getString props ''cubemap'' = Inr c
            \<longrightarrow> PRTIntegrator_new props = Inl (NoriException (''Unsupported type: '' @ type @ ''.'')))"
  using assms by (auto simp: PRTIntegrator_new_def Let_def split: sum.splits)

subsection \<open>The transport function\<close>

lemma normalized_dot:
  assumes "squaredNorm a > 0" and "squaredNorm b > 0"
  shows "dot (normalized a) (normalized b) = dot a b / (sqrt (squaredNorm a) * sqrt (squaredNorm b))"
  using assms
  by (simp add: normalized_def scale3_def dot_def vx_def vy_def vz_def field_simps)

text \<open>
  Claim C5. The transport function that the base pass hands to the projection is, for a
  direction \<open>wi = ToVector phi theta\<close> and the cosine \<open>c\<close> of the angle between \<open>wi\<close> and
  the vertex normal: under \<open>Unshadowed\<close>, \<open>max 0 c\<close>, whatever the scene and the vertex
  position (no scene query); under \<open>Shadowed\<close>, \<open>c\<close> if \<open>c > 0\<close> and the ray from the vertex
  along \<open>wi\<close> hits nothing, and 0 otherwise; under \<open>Interreflection\<close>, the same as under
  \<open>Shadowed\<close>. The cosine is the dot product of the two normalised vectors, which for
  non-zero vectors is their dot product over the product of their norms.
\<close>

theorem shFunc_transport:
  "shFunc ext Unshadowed scene v n phi theta
     = max 0 (dot (normalized (ToVector ext phi theta)) (normalized n))
   \<and> shFunc ext Unshadowed scene v n phi theta = shFunc ext Unshadowed scene' v' n phi theta
   \<and> shFunc ext Shadowed scene v n phi theta
     = (if dot (normalized (ToVector ext phi theta)) (normalized n) > 0
           \<and> rayIntersect scene (v, ToVector ext phi theta) = None
        then dot (normalized (ToVector ext phi theta)) (normalized n) else 0)
   \<and> shFunc ext Interreflection scene v n phi theta = shFunc ext Shadowed scene v n phi theta
   \<and> (squaredNorm (ToVector ext phi theta) > 0 \<longrightarrow> squaredNorm n > 0 \<longrightarrow>
        dot (normalized (ToVector ext phi theta)) (normalized n)
          = dot (ToVector ext phi theta) n
            / (sqrt (squaredNorm (ToVector ext phi theta)) * sqrt (squaredNorm n)))"
  by (simp add: shFunc_def Let_def max_def normalized_dot)

subsection \<open>Li\<close>

lemma dotSH_sum:
  "length a = length b \<Longrightarrow> dotSH a b = (\<Sum>j<length b. a ! j * b ! j)"
  by (simp add: dotSH_def sum_list_sum_nth atLeast0LessThan)

lemma dotSH_light:
  assumes "length L = SHCoeffLength" and "length col = SHCoeffLength"
  shows "dotSH (map f L) col = (\<Sum>j<SHCoeffLength. f (L ! j) * col ! j)"
proof -
  have "dotSH (map f L) col = (\<Sum>j<length col. map f L ! j * col ! j)"
    using assms by (simp add: dotSH_sum)
  also have "\<dots> = (\<Sum>j<SHCoeffLength. f (L ! j) * col ! j)"
    using assms by simp
  finally show ?thesis .
qed

text \<open>
  Claim C9. \<open>Li\<close> returns the zero colour when the scene query reports no hit. On a hit
  it returns the interpolation, by the hit's barycentric weights, of the colours of the
  three vertices of the hit, each colour being per channel the dot product of the
  vertex's transport vector with the channel's row of the light matrix. \<open>Li\<close> is a
  function of the integrator, the scene and the ray that returns the colour only: it
  changes neither the integrator nor the scene and keeps no state.
\<close>

theorem Li_reconstruction:
  "(rayIntersect scene ray = None \<longrightarrow> Li this scene ray = Inr (0, 0, 0))
   \<and> (\<forall>its ix iy iz.
        rayIntersect scene ray = Some its \<longrightarrow> tri_index its = (ix, iy, iz) \<longrightarrow>
        ix < length (m_TransportSHCoeffs this) \<longrightarrow> iy < length (m_TransportSHCoeffs this) \<longrightarrow>
        iz < length (m_TransportSHCoeffs this) \<longrightarrow>
        length (m_TransportSHCoeffs this ! ix) = SHCoeffLength \<longrightarrow>
        length (m_TransportSHCoeffs this ! iy) = SHCoeffLength \<longrightarrow>
        length (m_TransportSHCoeffs this ! iz) = SHCoeffLength \<longrightarrow>
        length (m_LightCoeffs this) = SHCoeffLength \<longrightarrow>
          Li this scene ray =
            Inr (Finite (vx (bary its)) * fst (vertex_color this ix)
                 + Finite (vy (bary its)) * fst (vertex_color this iy)
                 + Finite (vz (bary its)) * fst (vertex_color this iz),
                 Finite (vx (bary its)) * fst (snd (vertex_color this ix))
                 + Finite (vy (bary its)) * fst (snd (vertex_color this iy))
                 + Finite (vz (bary its)) * fst (snd (vertex_color this iz)),
                 Finite (vx (bary its)) * snd (snd (vertex_color this ix))
                 + Finite (vy (bary its)) * snd (snd (vertex_color this iy))
                 + Finite (vz (bary its)) * snd (snd (vertex_color this iz))))"
  by (simp add: Li_def Let_def dotSH_light vertex_color_def)

subsection \<open>The shape of the transport matrix\<close>

lemma shaped_replicate: "shaped V (replicate V (replicate SHCoeffLength 0))"
  by (simp add: shaped_def)

lemma shaped_update:
  "shaped V M \<Longrightarrow> length col = SHCoeffLength \<Longrightarrow> shaped V (M[i := col])"
  by (auto simp: shaped_def dest!: set_update_subset_insert [THEN subsetD])


lemma project_vertex_shaped:
  assumes "project_vertex ext this scene mesh rd i M = Inr M'" and "shaped V M"
  shows "shaped V M'"
proof -
  from assms(1) obtain sh where i: "i < length M" and le: "length sh \<le> length (M ! i)"
    and M': "M' = M[i := map Finite sh @ drop (length sh) (M ! i)]"
    by (auto simp: project_vertex_def Let_def split: if_splits sum.splits)
  have "length (M ! i) = SHCoeffLength" using assms(2) i by (simp add: shaped_def)
  then have "length (map Finite sh @ drop (length sh) (M ! i)) = SHCoeffLength" using le by simp
  then show ?thesis unfolding M' using assms(2) by (rule shaped_update [rotated])
qed

lemma bounce_sample_length:
  assumes "bounce_sample ext scene M v n side r t p E = Inr E'" and "length E = SHCoeffLength"
  shows "length E' = SHCoeffLength"
  using assms
  by (auto simp: bounce_sample_def Let_def split: if_splits option.splits prod.splits)

lemma bounce_samples_length:
  assumes "bounce_samples ext this scene mesh rng i = Inr E"
  shows "length E = SHCoeffLength"
proof -
  let ?side = "sample_side (m_SampleCount this)"
  let ?inner = "\<lambda>t. for_loop
       (\<lambda>p. bounce_sample ext scene (m_TransportSHCoeffs this) (VertexPositions mesh ! i)
              (VertexNormals mesh ! i) ?side (rng t p) t p) [0..<nat ?side]"
  from assms have loop: "for_loop ?inner [0..<nat ?side] (replicate SHCoeffLength 0) = Inr E"
    by (simp add: bounce_samples_def Let_def split: if_splits)
  show ?thesis
  proof (rule for_loop_invariant [OF loop, where P = "\<lambda>E. length E = SHCoeffLength"])
    show "length (replicate SHCoeffLength (0::float)) = SHCoeffLength" by simp
  next
    fix t a a'
    assume a: "length a = SHCoeffLength" and step: "?inner t a = Inr a'"
    show "length a' = SHCoeffLength"
      by (rule for_loop_invariant [OF step, where P = "\<lambda>E. length E = SHCoeffLength"])
         (auto simp: a intro: bounce_sample_length)
  qed
qed

lemma bounce_coeffs_length:
  assumes "bounce_coeffs ext this scene mesh rng i = Inr col"
  shows "length col = SHCoeffLength"
  using assms
  by (auto simp: bounce_coeffs_def Let_def split: sum.splits dest: bounce_samples_length)

lemma bounce_vertex_shaped:
  assumes "bounce_vertex ext this scene mesh rng i B = Inr B'" and "shaped V B"
  shows "shaped V B'"
proof -
  from assms(1) obtain col where col: "bounce_coeffs ext this scene mesh (rng i) i = Inr col"
    and B': "B' = B[i := col]"
    by (auto simp: bounce_vertex_def split: sum.splits if_splits)
  have "length col = SHCoeffLength"
    using col by (rule bounce_coeffs_length)
  then show ?thesis unfolding B' using assms(2) by (rule shaped_update [rotated])
qed

lemma matrix_add_shaped:
  "shaped V A \<Longrightarrow> shaped V B \<Longrightarrow> shaped V (matrix_add A B)"
  by (auto simp: shaped_def matrix_add_def set_zip)

lemma bounce_shaped:
  assumes "bounce ext scene mesh rd b this = Inr this'"
    and "shaped (getVertexCount mesh) (m_TransportSHCoeffs this)"
  shows "shaped (getVertexCount mesh) (m_TransportSHCoeffs this')"
proof -
  from assms(1) obtain B where
    loop: "for_loop (bounce_vertex ext this scene mesh (bounce_rng rd b)) [0..<getVertexCount mesh]
             (replicate (getVertexCount mesh) (replicate SHCoeffLength 0)) = Inr B"
    and this': "this' = this\<lparr> m_TransportSHCoeffs := matrix_add (m_TransportSHCoeffs this) B \<rparr>"
    by (auto simp: bounce_def split: sum.splits)
  have "shaped (getVertexCount mesh) B"
    by (rule for_loop_invariant [OF loop, where P = "shaped (getVertexCount mesh)"])
       (auto simp: shaped_replicate intro: bounce_vertex_shaped)
  then show ?thesis unfolding this' using assms(2) by (simp add: matrix_add_shaped)
qed

lemma bounces_shaped:
  assumes "bounces ext scene mesh rd k this = Inr this'"
    and "shaped (getVertexCount mesh) (m_TransportSHCoeffs this)"
  shows "shaped (getVertexCount mesh) (m_TransportSHCoeffs this')"
  using assms(1) unfolding bounces_def
  by (rule for_loop_invariant) (auto simp: assms(2) intro: bounce_shaped)

subsection \<open>The transport file\<close>

lemma coeff_line_row: "coeff_line ext col = coeff_row ext col @ endl"
  by (simp add: coeff_line_def coeff_row_def SHCoeffLength_def SHOrder_def eval_nat_numeral
      upt_rec)

lemma ofstream_write_Some:
  "is_open stream \<Longrightarrow> fs (stream_path stream) = Some content
     \<Longrightarrow> ofstream_write stream fs text = fs(stream_path stream \<mapsto> content @ text)"
  by (simp add: ofstream_write_def)

lemma ofstream_write_closed:
  "\<not> is_open stream \<Longrightarrow> ofstream_write stream fs text = fs"
  by (simp add: ofstream_write_def)

lemma ofstream_write_other:
  "path \<noteq> stream_path stream \<Longrightarrow> ofstream_write stream fs text path = fs path"
  by (simp add: ofstream_write_def)

lemma ofstream_open_stream:
  "fst (ofstream_open ext fs path) = \<lparr> stream_path = path, is_open = can_open ext path \<rparr>"
  by (simp add: ofstream_open_def)

lemma ofstream_open_files:
  "snd (ofstream_open ext fs path) = (if can_open ext path then fs(path \<mapsto> []) else fs)"
  by (simp add: ofstream_open_def)

lemma unlines_append: "unlines (xs @ ys) = unlines xs @ unlines ys"
  by (simp add: unlines_def)

lemma save_face_lines:
  assumes "save_face ext this fout f fs = Inr fs'" and "is_open fout"
    and "fs (stream_path fout) = Some content"
  shows "fs' = fs(stream_path fout \<mapsto>
                  content @ unlines (face_rows ext (m_TransportSHCoeffs this) f))"
  using assms
  by (auto simp: save_face_def Let_def ofstream_write_Some coeff_line_row unlines_def face_rows_def
      split: prod.splits if_splits)

lemma save_faces_lines:
  assumes "for_loop (save_face ext this fout) faces fs = Inr fs'" and "is_open fout"
    and "fs (stream_path fout) = Some content"
  shows "fs' = fs(stream_path fout \<mapsto> content
                 @ unlines (concat (map (face_rows ext (m_TransportSHCoeffs this)) faces)))"
  using assms
proof (induction faces arbitrary: fs content)
  case Nil
  then show ?case by (auto simp: unlines_def)
next
  case (Cons f faces)
  let ?M = "m_TransportSHCoeffs this"
  let ?path = "stream_path fout"
  from Cons.prems(1) obtain fs1 where f: "save_face ext this fout f fs = Inr fs1"
    and rest: "for_loop (save_face ext this fout) faces fs1 = Inr fs'"
    by (auto split: sum.splits)
  have fs1: "fs1 = fs(?path \<mapsto> content @ unlines (face_rows ext ?M f))"
    by (rule save_face_lines [OF f Cons.prems(2) Cons.prems(3)])
  then have "fs1 ?path = Some (content @ unlines (face_rows ext ?M f))"
    by simp
  from Cons.IH [OF rest Cons.prems(2) this]
  have "fs' = fs1(?path \<mapsto> (content @ unlines (face_rows ext ?M f))
                 @ unlines (concat (map (face_rows ext ?M) faces)))" .
  also have "\<dots> = fs(?path \<mapsto> (content @ unlines (face_rows ext ?M f))
                 @ unlines (concat (map (face_rows ext ?M) faces)))"
    unfolding fs1 by (rule fun_upd_upd)
  finally show ?case by (simp add: unlines_append)
qed

lemma save_faces_closed:
  assumes "for_loop (save_face ext this fout) faces fs = Inr fs'" and "\<not> is_open fout"
  shows "fs' = fs"
  using assms
  by (induction faces arbitrary: fs)
     (auto simp: save_face_def Let_def ofstream_write_closed split: sum.splits if_splits prod.splits)

lemma save_faces_in_range:
  assumes "for_loop (save_face ext this fout) faces fs = Inr fs'"
  shows "\<forall>(idx0, idx1, idx2) \<in> set faces.
           idx0 < length (m_TransportSHCoeffs this) \<and> idx1 < length (m_TransportSHCoeffs this)
           \<and> idx2 < length (m_TransportSHCoeffs this)"
  using assms
  by (induction faces arbitrary: fs)
     (auto simp: save_face_def Let_def split: sum.splits if_splits prod.splits)

lemma preprocess_success:
  assumes "preprocess ext this scene rd fs = (Inr this', fs')"
    and "getMeshes scene = mesh # rest"
  obtains this1 fs3 this3 where
    "projection_environment ext this (resolve ext (m_CubemapPath this))
       (fst (ofstream_open ext fs (resolve ext (m_CubemapPath this) @ ''/light.txt'')))
       (snd (ofstream_open ext
               (snd (ofstream_open ext fs (resolve ext (m_CubemapPath this) @ ''/light.txt'')))
               (resolve ext (m_CubemapPath this) @ ''/transport.txt''))) = Inr (this1, fs3)"
    "projection_transport ext this1 scene mesh rd = Inr this3"
    "interreflection ext this3 scene mesh rd = Inr this'"
    "for_loop
       (save_face ext this'
          (fst (ofstream_open ext
                  (snd (ofstream_open ext fs (resolve ext (m_CubemapPath this) @ ''/light.txt'')))
                  (resolve ext (m_CubemapPath this) @ ''/transport.txt''))))
       (Indices mesh)
       (ofstream_write
          (fst (ofstream_open ext
                  (snd (ofstream_open ext fs (resolve ext (m_CubemapPath this) @ ''/light.txt'')))
                  (resolve ext (m_CubemapPath this) @ ''/transport.txt'')))
          fs3 (show_nat ext (getVertexCount mesh) @ endl)) = Inr fs'"
  using assms
  by (auto simp: preprocess_def Let_def split: sum.splits prod.splits)

lemma projection_environment_files:
  assumes "projection_environment ext this cubePath lightFout fs = Inr (this1, fs3)"
    and "path \<noteq> stream_path lightFout"
  shows "fs3 path = fs path"
  using assms
  by (auto simp: projection_environment_def ofstream_write_def split: sum.splits prod.splits)

lemma projection_transport_shaped:
  assumes "projection_transport ext this scene mesh rd = Inr this3"
  shows "shaped (getVertexCount mesh) (m_TransportSHCoeffs this3)"
proof -
  let ?this1 = "this\<lparr> m_TransportSHCoeffs :=
                          replicate (getVertexCount mesh) (replicate SHCoeffLength 0) \<rparr>"
  from assms obtain T where
    T: "for_loop (project_vertex ext ?this1 scene mesh rd) [0..<getVertexCount mesh]
          (replicate (getVertexCount mesh) (replicate SHCoeffLength 0)) = Inr T"
    and this3: "this3 = ?this1\<lparr> m_TransportSHCoeffs := T \<rparr>"
    by (auto simp: projection_transport_def Let_def split: sum.splits)
  have "shaped (getVertexCount mesh) T"
    using T by (rule for_loop_invariant) (auto simp: shaped_replicate intro: project_vertex_shaped)
  then show ?thesis by (simp add: this3)
qed

lemma interreflection_shaped:
  assumes "interreflection ext this scene mesh rd = Inr this'"
    and "shaped (getVertexCount mesh) (m_TransportSHCoeffs this)"
  shows "shaped (getVertexCount mesh) (m_TransportSHCoeffs this')"
  using assms by (auto simp: interreflection_def split: if_splits intro: bounces_shaped)

lemma preprocess_shaped:
  assumes "preprocess ext this scene rd fs = (Inr this', fs')"
    and "getMeshes scene = mesh # rest"
  shows "shaped (getVertexCount mesh) (m_TransportSHCoeffs this')"
proof -
  from assms obtain this1 this3 where
    "projection_transport ext this1 scene mesh rd = Inr this3"
    "interreflection ext this3 scene mesh rd = Inr this'"
    by (rule preprocess_success)
  then show ?thesis
    by (auto intro: interreflection_shaped projection_transport_shaped)
qed

lemma preprocess_transport_file:
  assumes "preprocess ext this scene rd fs = (Inr this', fs')"
    and "getMeshes scene = mesh # rest"
  shows "fs' (resolve ext (m_CubemapPath this) @ ''/transport.txt'')
           = (if can_open ext (resolve ext (m_CubemapPath this) @ ''/transport.txt'')
              then Some (unlines (transport_file_lines ext mesh (m_TransportSHCoeffs this')))
              else fs (resolve ext (m_CubemapPath this) @ ''/transport.txt''))"
proof -
  let ?L = "resolve ext (m_CubemapPath this) @ ''/light.txt''"
  let ?T = "resolve ext (m_CubemapPath this) @ ''/transport.txt''"
  let ?fs1 = "snd (ofstream_open ext fs ?L)"
  let ?fout = "fst (ofstream_open ext ?fs1 ?T)"
  let ?fs2 = "snd (ofstream_open ext ?fs1 ?T)"
  from assms obtain this1 fs3 where
    env: "projection_environment ext this (resolve ext (m_CubemapPath this))
            (fst (ofstream_open ext fs ?L)) ?fs2 = Inr (this1, fs3)"
    and save: "for_loop (save_face ext this' ?fout) (Indices mesh)
       (ofstream_write ?fout fs3 (show_nat ext (getVertexCount mesh) @ endl)) = Inr fs'"
    by (rule preprocess_success)
  have path: "stream_path ?fout = ?T" and op: "is_open ?fout = can_open ext ?T"
    by (simp_all add: ofstream_open_stream)
  have fs3: "fs3 ?T = ?fs2 ?T"
    using env by (rule projection_environment_files) (simp add: ofstream_open_stream)
  show ?thesis
  proof (cases "can_open ext ?T")
    case True
    then have "fs3 ?T = Some []"
      using fs3 by (simp add: ofstream_open_files)
    then have "ofstream_write ?fout fs3 (show_nat ext (getVertexCount mesh) @ endl)
                 (stream_path ?fout) = Some (show_nat ext (getVertexCount mesh) @ endl)"
      using True by (simp add: ofstream_write_def ofstream_open_stream)
    from save_faces_lines [OF save _ this] True
    show ?thesis
      by (simp add: ofstream_open_stream transport_file_lines_def unlines_def)
  next
    case False
    then have closed: "\<not> is_open ?fout"
      by (simp add: op)
    have "fs' = ofstream_write ?fout fs3 (show_nat ext (getVertexCount mesh) @ endl)"
      using save closed by (rule save_faces_closed)
    then have "fs' = fs3"
      using closed by (simp add: ofstream_write_closed)
    moreover have "?fs2 ?T = fs ?T"
      using False by (simp add: ofstream_open_files)
    ultimately show ?thesis using False fs3 by simp
  qed
qed

lemma preprocess_faces_in_range:
  assumes "preprocess ext this scene rd fs = (Inr this', fs')"
    and "getMeshes scene = mesh # rest"
  shows "\<forall>(idx0, idx1, idx2) \<in> set (Indices mesh).
            idx0 < getVertexCount mesh \<and> idx1 < getVertexCount mesh \<and> idx2 < getVertexCount mesh"
proof -
  from assms obtain fout fs4 where
    save: "for_loop (save_face ext this' fout) (Indices mesh) fs4 = Inr fs'"
    by (rule preprocess_success)
  have "shaped (getVertexCount mesh) (m_TransportSHCoeffs this')"
    using assms by (rule preprocess_shaped)
  then show ?thesis
    using save_faces_in_range [OF save] by (simp add: shaped_def)
qed

text \<open>
  Claim C8. After a run that succeeds, the transport file, its stream having been
  opened, holds: a first line with the vertex count of the mesh; then, for each triangle
  of the mesh in order, three lines, one per vertex of the triangle in the order of its
  indices, each line the nine coefficients of that vertex's column in index order, every
  coefficient followed by a space. A vertex shared by several triangles is written once
  per triangle. The matrix has one column per vertex, of nine coefficients, and every
  index of a face is one of its columns. When the stream could not be opened, nothing
  is persisted: the path holds what it held before the run.
\<close>

theorem transport_file_layout:
  assumes "preprocess ext this scene rd fs = (Inr this', fs')"
    and "getMeshes scene = mesh # rest"
  shows "fs' (resolve ext (m_CubemapPath this) @ ''/transport.txt'')
           = (if can_open ext (resolve ext (m_CubemapPath this) @ ''/transport.txt'')
              then Some (unlines (transport_file_lines ext mesh (m_TransportSHCoeffs this')))
              else fs (resolve ext (m_CubemapPath this) @ ''/transport.txt''))
       \<and> length (m_TransportSHCoeffs this') = getVertexCount mesh
       \<and> (\<forall>column \<in> set (m_TransportSHCoeffs this'). length column = SHCoeffLength)
       \<and> (\<forall>(idx0, idx1, idx2) \<in> set (Indices mesh).
            idx0 < getVertexCount mesh \<and> idx1 < getVertexCount mesh \<and> idx2 < getVertexCount mesh)"
  using preprocess_transport_file [OF assms] preprocess_faces_in_range [OF assms]
    preprocess_shaped [OF assms]
  by (simp add: shaped_def)

subsection \<open>One bounce reads the matrix of the previous one\<close>

lemma bounce_loop_columns:
  assumes "for_loop (bounce_vertex ext this scene mesh rng) [0..<k] B0 = Inr B"
  shows "length B = length B0
       \<and> (\<forall>i<k. bounce_coeffs ext this scene mesh (rng i) i = Inr (B ! i))
       \<and> (\<forall>i\<ge>k. B ! i = B0 ! i)"
  using assms
proof (induction k arbitrary: B)
  case 0
  then show ?case by simp
next
  case (Suc k)
  from Suc.prems obtain B1 where
    B1: "for_loop (bounce_vertex ext this scene mesh rng) [0..<k] B0 = Inr B1"
    and step: "bounce_vertex ext this scene mesh rng k B1 = Inr B"
    by (auto simp: for_loop_append split: sum.splits)
  from step obtain col where col: "bounce_coeffs ext this scene mesh (rng k) k = Inr col"
    and k: "k < length B1" and B: "B = B1[k := col]"
    by (auto simp: bounce_vertex_def split: sum.splits if_splits)
  note IH = Suc.IH [OF B1]
  have "length B = length B0" using IH B by simp
  moreover have "bounce_coeffs ext this scene mesh (rng i) i = Inr (B ! i)" if "i < Suc k" for i
  proof (cases "i = k")
    case True
    then show ?thesis using col k B by simp
  next
    case False
    then have "i < k" using that by simp
    then show ?thesis using IH B False by simp
  qed
  moreover have "B ! i = B0 ! i" if "Suc k \<le> i" for i
    using that IH B by simp
  ultimately show ?case by blast
qed

lemma matrix_add_nth:
  "i < length A \<Longrightarrow> i < length B \<Longrightarrow> matrix_add A B ! i = map2 (+) (A ! i) (B ! i)"
  by (simp add: matrix_add_def)

lemma bounce_columns:
  assumes "bounce ext scene mesh rd b this = Inr this'"
    and "length (m_TransportSHCoeffs this) = getVertexCount mesh"
  shows "this' = this\<lparr> m_TransportSHCoeffs := m_TransportSHCoeffs this' \<rparr>"
    and "length (m_TransportSHCoeffs this') = getVertexCount mesh"
    and "i < getVertexCount mesh \<Longrightarrow>
           \<exists>col. bounce_coeffs ext this scene mesh (bounce_rng rd b i) i = Inr col
              \<and> m_TransportSHCoeffs this' ! i = map2 (+) (m_TransportSHCoeffs this ! i) col"
proof -
  let ?V = "getVertexCount mesh"
  from assms(1) obtain B where
    loop: "for_loop (bounce_vertex ext this scene mesh (bounce_rng rd b)) [0..<?V]
             (replicate ?V (replicate SHCoeffLength 0)) = Inr B"
    and this': "this' = this\<lparr> m_TransportSHCoeffs := matrix_add (m_TransportSHCoeffs this) B \<rparr>"
    by (auto simp: bounce_def split: sum.splits)
  note cols = bounce_loop_columns [OF loop]
  have len: "length B = ?V" using cols by simp
  show "this' = this\<lparr> m_TransportSHCoeffs := m_TransportSHCoeffs this' \<rparr>"
    by (simp add: this')
  show "length (m_TransportSHCoeffs this') = ?V"
    using len assms(2) by (simp add: this' matrix_add_def)
  show "\<exists>col. bounce_coeffs ext this scene mesh (bounce_rng rd b i) i = Inr col
              \<and> m_TransportSHCoeffs this' ! i = map2 (+) (m_TransportSHCoeffs this ! i) col"
    if "i < ?V"
    using that cols len assms(2) by (simp add: this' matrix_add_nth)
qed

text \<open>
  Claim C6. One bounce changes nothing of the integrator but the transport matrix, and
  column \<open>i\<close> of the matrix after the bounce is column \<open>i\<close> before the bounce plus the
  coefficients of vertex \<open>i\<close>, computed by \<open>bounce_coeffs\<close> from the integrator as it was
  before the bounce: the interpolation reads the matrix of the previous bounce, never a
  column the current bounce has produced, and the buffer is added once, after the loop
  over the vertices.
\<close>

theorem bounce_double_buffered:
  assumes "bounce ext scene mesh rd b this = Inr this'"
    and "length (m_TransportSHCoeffs this) = getVertexCount mesh"
  shows "this' = this\<lparr> m_TransportSHCoeffs := m_TransportSHCoeffs this' \<rparr>
       \<and> length (m_TransportSHCoeffs this') = getVertexCount mesh
       \<and> (\<forall>i<getVertexCount mesh.
            \<exists>col. bounce_coeffs ext this scene mesh (bounce_rng rd b i) i = Inr col
              \<and> m_TransportSHCoeffs this' ! i = map2 (+) (m_TransportSHCoeffs this ! i) col)"
  using bounce_columns [OF assms] by blast

subsection \<open>The zeroth coefficient grows\<close>






lemma sample_side_pos: "1 \<le> N \<Longrightarrow> 1 \<le> sample_side N"
  by (simp add: sample_side_def le_floor_iff)



lemma bounces_Suc:
  "bounces ext scene mesh rd (Suc b) this =
     (case bounces ext scene mesh rd b this of
        Inl e \<Rightarrow> Inl e
      | Inr prev \<Rightarrow> bounce ext scene mesh rd (Suc b) prev)"
proof -
  have "[1..<Suc (Suc b)] = [1..<Suc b] @ [Suc b]" by simp
  then show ?thesis
    unfolding bounces_def by (simp only: for_loop_append) (simp split: sum.splits)
qed

lemma bounce_SampleCount:
  "bounce ext scene mesh rd b this = Inr this' \<Longrightarrow> m_SampleCount this' = m_SampleCount this"
  by (auto simp: bounce_def split: sum.splits)

lemma bounces_SampleCount:
  assumes "bounces ext scene mesh rd k this = Inr this'"
  shows "m_SampleCount this' = m_SampleCount this"
  using assms unfolding bounces_def
  by (rule for_loop_invariant) (auto simp: bounce_SampleCount)


subsection \<open>The weight of the bounce samples\<close>

lemma bounce_sample_adds:
  assumes "bounce_sample ext scene M v n side r t p E = Inr E'"
    and "length E = SHCoeffLength"
  shows "length E' = SHCoeffLength
       \<and> (\<forall>j<SHCoeffLength. E' ! j = E ! j + sample_contribution ext scene M v n side r t p j)"
  using assms
  by (auto simp: bounce_sample_def sample_contribution_def Let_def
      split: if_splits option.splits prod.splits)

lemma for_loop_sum:
  assumes "for_loop body xs E = Inr E'" and "length E = L"
    and "\<And>x A A'. x \<in> set xs \<Longrightarrow> body x A = Inr A' \<Longrightarrow> length A = L
           \<Longrightarrow> length A' = L \<and> (\<forall>j<L. A' ! j = A ! j + (c x j :: 'a :: comm_monoid_add))"
  shows "length E' = L \<and> (\<forall>j<L. E' ! j = E ! j + (\<Sum>x\<leftarrow>xs. c x j))"
  using assms
proof (induction xs arbitrary: E)
  case Nil
  then show ?case by simp
next
  case (Cons x xs)
  from Cons.prems(1) obtain A where A: "body x E = Inr A" and rest: "for_loop body xs A = Inr E'"
    by (auto split: sum.splits)
  have hd: "length A = L \<and> (\<forall>j<L. A ! j = E ! j + c x j)"
    using Cons.prems(3) [of x E A] A Cons.prems(2) by simp
  have "length E' = L \<and> (\<forall>j<L. E' ! j = A ! j + (\<Sum>x\<leftarrow>xs. c x j))"
    using rest hd
  proof (rule Cons.IH [OF _ conjunct1])
    fix y B B'
    assume "y \<in> set xs" "body y B = Inr B'" "length B = L"
    then show "length B' = L \<and> (\<forall>j<L. B' ! j = B ! j + c y j)"
      using Cons.prems(3) [of y B B'] by simp
  qed
  then show ?case using hd by (simp add: add.assoc)
qed

lemma bounce_samples_sum:
  assumes "bounce_samples ext this scene mesh rng i = Inr E" and "j < SHCoeffLength"
  shows "E ! j =
     (\<Sum>t<nat (sample_side (m_SampleCount this)).
        \<Sum>p<nat (sample_side (m_SampleCount this)).
          sample_contribution ext scene (m_TransportSHCoeffs this) (VertexPositions mesh ! i)
            (VertexNormals mesh ! i) (sample_side (m_SampleCount this)) (rng t p) t p j)"
proof -
  let ?side = "sample_side (m_SampleCount this)"
  let ?c = "\<lambda>t p. sample_contribution ext scene (m_TransportSHCoeffs this) (VertexPositions mesh ! i)
            (VertexNormals mesh ! i) ?side (rng t p) t p"
  let ?inner = "\<lambda>t. for_loop
       (\<lambda>p. bounce_sample ext scene (m_TransportSHCoeffs this) (VertexPositions mesh ! i)
              (VertexNormals mesh ! i) ?side (rng t p) t p) [0..<nat ?side]"
  from assms(1) have loop: "for_loop ?inner [0..<nat ?side] (replicate SHCoeffLength 0) = Inr E"
    by (simp add: bounce_samples_def Let_def split: if_splits)
  have inner: "length A' = SHCoeffLength
        \<and> (\<forall>j<SHCoeffLength. A' ! j = A ! j + (\<Sum>p\<leftarrow>[0..<nat ?side]. ?c t p j))"
    if "?inner t A = Inr A'" and "length A = SHCoeffLength" for t A A'
    using that
    by (rule for_loop_sum) (rule bounce_sample_adds)
  have "length E = SHCoeffLength
        \<and> (\<forall>j<SHCoeffLength. E ! j = replicate SHCoeffLength 0 ! j
              + (\<Sum>t\<leftarrow>[0..<nat ?side]. \<Sum>p\<leftarrow>[0..<nat ?side]. ?c t p j))"
    using loop by (rule for_loop_sum) (simp, rule inner)
  then have "E ! j = (\<Sum>t\<leftarrow>[0..<nat ?side]. \<Sum>p\<leftarrow>[0..<nat ?side]. ?c t p j)"
    using assms(2) by simp
  then show ?thesis
    by (simp add: interv_sum_list_conv_sum_set_nat atLeast0LessThan)
qed

lemma sample_side_bounds:
  assumes "1 \<le> sample_side N"
  shows "sample_side N * sample_side N \<le> N" and "N < (sample_side N + 1) * (sample_side N + 1)"
proof -
  let ?s = "sample_side N"
  have pos: "0 \<le> sqrt (real_of_int N)"
  proof (rule ccontr)
    assume "\<not> 0 \<le> sqrt (real_of_int N)"
    then have "sqrt (real_of_int N) < 0" by simp
    then have "?s < 0" unfolding sample_side_def by (simp add: floor_less_iff)
    then show False using assms by simp
  qed
  then have N0: "0 \<le> real_of_int N" by simp
  have le: "real_of_int ?s \<le> sqrt (real_of_int N)"
    unfolding sample_side_def by (rule of_int_floor_le)
  have lt: "sqrt (real_of_int N) < real_of_int ?s + 1"
    unfolding sample_side_def by linarith
  have "real_of_int ?s * real_of_int ?s \<le> sqrt (real_of_int N) * sqrt (real_of_int N)"
    using le assms pos by (intro mult_mono) auto
  then have "real_of_int (?s * ?s) \<le> real_of_int N" using N0 by simp
  then show "?s * ?s \<le> N" by (simp only: of_int_le_iff)
  have "sqrt (real_of_int N) * sqrt (real_of_int N) < (real_of_int ?s + 1) * (real_of_int ?s + 1)"
    using lt pos by (intro mult_strict_mono') auto
  then have "real_of_int N < real_of_int ((?s + 1) * (?s + 1))" using N0 by simp
  then show "N < (?s + 1) * (?s + 1)" by (simp only: of_int_less_iff)
qed

text \<open>
  Claim C3, as the code has it. For a sample count \<open>N\<close> of at least 1, the coefficients
  of a vertex for one bounce are the sum of the contributions of the cells of the
  sampling grid, scaled by \<open>4 pi / (sample_side * sample_side)\<close>, where \<open>sample_side\<close> is
  the floor of the square root of \<open>N\<close>: the grid has \<open>sample_side\<close> squared cells, at
  least one, at most \<open>N\<close> and more than \<open>N\<close> minus twice \<open>sample_side\<close> plus one. The
  weight is \<open>4 pi / N\<close> exactly when \<open>N\<close> is a perfect square. The weight of the base
  projection is applied inside \<open>ProjectFunction\<close>, which is not part of \<^verbatim>\<open>prt.cpp\<close>.
\<close>

theorem bounce_weight_is_grid_weight:
  assumes "bounce_coeffs ext this scene mesh rng i = Inr col" and "j < SHCoeffLength"
    and "1 \<le> m_SampleCount this"
  shows "col ! j =
     (\<Sum>t<nat (sample_side (m_SampleCount this)).
        \<Sum>p<nat (sample_side (m_SampleCount this)).
          sample_contribution ext scene (m_TransportSHCoeffs this) (VertexPositions mesh ! i)
            (VertexNormals mesh ! i) (sample_side (m_SampleCount this)) (rng t p) t p j)
     * Finite (4 * pi
               / real_of_int (sample_side (m_SampleCount this) * sample_side (m_SampleCount this)))
     \<and> 1 \<le> sample_side (m_SampleCount this)
     \<and> sample_side (m_SampleCount this) * sample_side (m_SampleCount this) \<le> m_SampleCount this
     \<and> m_SampleCount this
         < (sample_side (m_SampleCount this) + 1) * (sample_side (m_SampleCount this) + 1)
     \<and> (4 * pi / real_of_int (sample_side (m_SampleCount this) * sample_side (m_SampleCount this))
          = 4 * pi / real_of_int (m_SampleCount this)
        \<longleftrightarrow> m_SampleCount this
              = sample_side (m_SampleCount this) * sample_side (m_SampleCount this))"
proof -
  let ?N = "m_SampleCount this"
  let ?s = "sample_side ?N"
  from assms(1) obtain E where E: "bounce_samples ext this scene mesh rng i = Inr E"
    and col: "col = map (\<lambda>c. c * bounce_weight ?N) E"
    by (auto simp: bounce_coeffs_def Let_def split: sum.splits)
  have s1: "1 \<le> ?s" using assms(3) by (rule sample_side_pos)
  then have wv: "bounce_weight ?N = Finite (4 * pi / real_of_int (?s * ?s))"
    by (simp add: bounce_weight_def Let_def)
  have "j < length E" using bounce_samples_length [OF E] assms(2) by simp
  then have "col ! j = E ! j * bounce_weight ?N" by (simp add: col)
  then have first: "col ! j =
     (\<Sum>t<nat ?s. \<Sum>p<nat ?s.
          sample_contribution ext scene (m_TransportSHCoeffs this) (VertexPositions mesh ! i)
            (VertexNormals mesh ! i) ?s (rng t p) t p j)
     * Finite (4 * pi / real_of_int (?s * ?s))"
    using bounce_samples_sum [OF E assms(2)] wv by simp
  note b = sample_side_bounds [OF s1]
  have ss: "0 < ?s * ?s" using s1 by simp
  then have N: "0 < ?N" using b(1) by linarith
  have "(4 * pi / real_of_int (?s * ?s) = 4 * pi / real_of_int ?N) \<longleftrightarrow> ?N = ?s * ?s"
  proof
    assume eq: "4 * pi / real_of_int (?s * ?s) = 4 * pi / real_of_int ?N"
    have "real_of_int ?N = real_of_int (?s * ?s)"
      using eq ss N by (simp add: field_simps)
    then show "?N = ?s * ?s" by (simp only: of_int_eq_iff)
  next
    assume "?N = ?s * ?s"
    then show "4 * pi / real_of_int (?s * ?s) = 4 * pi / real_of_int ?N" by simp
  qed
  with first s1 b show ?thesis by blast
qed

subsection \<open>What the result depends on\<close>

lemma same_hits_cases:
  assumes "same_hits scene scene'"
  obtains (miss) "rayIntersect scene ray = None" "rayIntersect scene' ray = None"
  | (hit) its its' where "rayIntersect scene ray = Some its" "rayIntersect scene' ray = Some its'"
      "tri_index its' = tri_index its" "bary its' = bary its"
proof -
  have eq: "map_option (\<lambda>its. (tri_index its, bary its)) (rayIntersect scene ray)
            = map_option (\<lambda>its. (tri_index its, bary its)) (rayIntersect scene' ray)"
    using assms [unfolded same_hits_def] by (rule spec)
  show thesis
  proof (cases "rayIntersect scene ray")
    case None
    moreover have "rayIntersect scene' ray = None"
      using eq None by simp
    ultimately show ?thesis by (rule miss)
  next
    case (Some its)
    then obtain its' where "rayIntersect scene' ray = Some its'"
      "tri_index its' = tri_index its" "bary its' = bary its"
      using eq by (cases "rayIntersect scene' ray") auto
    with Some show ?thesis by (rule hit)
  qed
qed

lemma shFunc_same_hits:
  assumes "same_hits scene scene'"
  shows "shFunc ext type scene v n = shFunc ext type scene' v n"
proof (intro ext)
  fix phi theta
  show "shFunc ext type scene v n phi theta = shFunc ext type scene' v n phi theta"
    by (rule same_hits_cases [OF assms, of "(v, ToVector ext phi theta)"])
       (simp_all add: shFunc_def Let_def)
qed

lemma project_vertex_cong:
  assumes "same_hits scene scene'" and "proj_rng rd i = proj_rng rd' i"
  shows "project_vertex ext this scene mesh rd i M = project_vertex ext this scene' mesh rd' i M"
  by (simp add: project_vertex_def shFunc_same_hits [OF assms(1)] assms(2))

lemma bounce_sample_same_hits:
  assumes "same_hits scene scene'"
  shows "bounce_sample ext scene M v n side r t p E = bounce_sample ext scene' M v n side r t p E"
proof -
  let ?ray = "(v, ToVector ext (2 * pi * ((real p + snd r) / real_of_int side))
                (arccos (2 * ((real t + fst r) / real_of_int side) - 1)))"
  from assms show ?thesis
  proof (cases rule: same_hits_cases [of _ _ ?ray])
    case miss
    then show ?thesis by (simp add: bounce_sample_def Let_def)
  next
    case (hit its its')
    have "interpolateSH M its' = interpolateSH M its"
      using hit(3,4) by (simp add: interpolateSH_def fun_eq_iff)
    then show ?thesis using hit by (simp add: bounce_sample_def Let_def split: prod.splits)
  qed
qed

lemma bounce_samples_cong:
  assumes "same_hits scene scene'"
    and "\<forall>t<nat (sample_side (m_SampleCount this)). \<forall>p<nat (sample_side (m_SampleCount this)).
           rng t p = rng' t p"
  shows "bounce_samples ext this scene mesh rng i = bounce_samples ext this scene' mesh rng' i"
  unfolding bounce_samples_def Let_def
  using assms(2)
  by (auto intro!: for_loop_cong simp: bounce_sample_same_hits [OF assms(1)])

lemma bounce_cong:
  assumes "same_hits scene scene'"
    and "\<forall>i<getVertexCount mesh. \<forall>t<nat (sample_side (m_SampleCount this)).
           \<forall>p<nat (sample_side (m_SampleCount this)).
             bounce_rng rd b i t p = bounce_rng rd' b i t p"
  shows "bounce ext scene mesh rd b this = bounce ext scene' mesh rd' b this"
proof -
  have "bounce_vertex ext this scene mesh (bounce_rng rd b) i B
        = bounce_vertex ext this scene' mesh (bounce_rng rd' b) i B"
    if "i \<in> set [0..<getVertexCount mesh]" for i B
  proof -
    have "bounce_samples ext this scene mesh (bounce_rng rd b i) i
          = bounce_samples ext this scene' mesh (bounce_rng rd' b i) i"
      using assms(1) by (rule bounce_samples_cong) (use that assms(2) in simp)
    then show ?thesis by (simp add: bounce_vertex_def bounce_coeffs_def)
  qed
  then have "for_loop (bounce_vertex ext this scene mesh (bounce_rng rd b)) [0..<getVertexCount mesh]
        = for_loop (bounce_vertex ext this scene' mesh (bounce_rng rd' b)) [0..<getVertexCount mesh]"
    by (intro ext for_loop_cong)
  then show ?thesis by (simp add: bounce_def)
qed

lemma bounces_cong:
  assumes "same_hits scene scene'"
    and "\<forall>b. 1 \<le> b \<and> b \<le> k \<longrightarrow>
           (\<forall>i<getVertexCount mesh. \<forall>t<nat (sample_side (m_SampleCount this)).
              \<forall>p<nat (sample_side (m_SampleCount this)).
                bounce_rng rd b i t p = bounce_rng rd' b i t p)"
  shows "bounces ext scene mesh rd k this = bounces ext scene' mesh rd' k this"
  using assms(2)
proof (induction k)
  case 0
  show ?case by (simp add: bounces_def)
next
  case (Suc k)
  have IH: "bounces ext scene mesh rd k this = bounces ext scene' mesh rd' k this"
    using Suc.prems by (intro Suc.IH) auto
  show ?case
  proof (cases "bounces ext scene' mesh rd' k this")
    case (Inl e)
    then show ?thesis by (simp add: bounces_Suc IH)
  next
    case (Inr prev)
    have N: "m_SampleCount prev = m_SampleCount this"
      using Inr by (rule bounces_SampleCount)
    have "bounce ext scene mesh rd (Suc k) prev = bounce ext scene' mesh rd' (Suc k) prev"
      using assms(1) by (rule bounce_cong) (use Suc.prems N in simp)
    then show ?thesis by (simp add: bounces_Suc IH Inr)
  qed
qed

lemma projection_transport_cong:
  assumes "same_hits scene scene'"
    and "\<forall>i<getVertexCount mesh. proj_rng rd i = proj_rng rd' i"
  shows "projection_transport ext this scene mesh rd = projection_transport ext this scene' mesh rd'"
proof -
  have "for_loop (project_vertex ext this0 scene mesh rd) [0..<getVertexCount mesh]
        = for_loop (project_vertex ext this0 scene' mesh rd') [0..<getVertexCount mesh]" for this0
    using assms by (intro ext for_loop_cong project_vertex_cong) auto
  then show ?thesis by (simp add: projection_transport_def)
qed

lemma projection_transport_fields:
  "projection_transport ext this scene mesh rd = Inr this'
     \<Longrightarrow> m_SampleCount this' = m_SampleCount this \<and> m_Bounce this' = m_Bounce this
         \<and> m_Type this' = m_Type this"
  by (auto simp: projection_transport_def Let_def split: sum.splits)

lemma projection_environment_fields:
  "projection_environment ext this cp lp fs = Inr (this', fs')
     \<Longrightarrow> m_SampleCount this' = m_SampleCount this \<and> m_Bounce this' = m_Bounce this
         \<and> m_Type this' = m_Type this"
  by (auto simp: projection_environment_def split: sum.splits prod.splits)

lemma interreflection_cong:
  assumes "same_hits scene scene'"
    and "\<forall>b. m_Type this = Interreflection \<and> 1 \<le> b \<and> int b \<le> m_Bounce this \<longrightarrow>
           (\<forall>i<getVertexCount mesh. \<forall>t<nat (sample_side (m_SampleCount this)).
              \<forall>p<nat (sample_side (m_SampleCount this)).
                bounce_rng rd b i t p = bounce_rng rd' b i t p)"
  shows "interreflection ext this scene mesh rd = interreflection ext this scene' mesh rd'"
proof (cases "m_Type this = Interreflection")
  case True
  have "bounces ext scene mesh rd (nat (m_Bounce this)) this
        = bounces ext scene' mesh rd' (nat (m_Bounce this)) this"
    using assms(1) by (rule bounces_cong) (use assms(2) True in auto)
  then show ?thesis by (simp add: interreflection_def)
next
  case False
  then show ?thesis by (simp add: interreflection_def)
qed

lemma preprocess_cong:
  assumes "getMeshes scene = mesh # rest" and "getMeshes scene' = mesh # rest'"
    and "same_hits scene scene'"
    and "\<forall>i<getVertexCount mesh. proj_rng rd i = proj_rng rd' i"
    and "\<forall>b. m_Type this = Interreflection \<and> 1 \<le> b \<and> int b \<le> m_Bounce this \<longrightarrow>
           (\<forall>i<getVertexCount mesh. \<forall>t<nat (sample_side (m_SampleCount this)).
              \<forall>p<nat (sample_side (m_SampleCount this)).
                bounce_rng rd b i t p = bounce_rng rd' b i t p)"
  shows "preprocess ext this scene rd fs = preprocess ext this scene' rd' fs"
proof -
  let ?cp = "resolve ext (m_CubemapPath this)"
  let ?lightFout = "fst (ofstream_open ext fs (?cp @ ''/light.txt''))"
  let ?fs1 = "snd (ofstream_open ext fs (?cp @ ''/light.txt''))"
  let ?fs2 = "snd (ofstream_open ext ?fs1 (?cp @ ''/transport.txt''))"
  show ?thesis
  proof (cases "projection_environment ext this ?cp ?lightFout ?fs2")
    case (Inl e)
    then show ?thesis by (simp add: preprocess_def assms(1,2) Let_def split_beta)
  next
    case (Inr a)
    obtain this1 fs3 where a: "a = (this1, fs3)" by (cases a)
    note f1 = projection_environment_fields [OF Inr [unfolded a]]
    have pt: "projection_transport ext this1 scene mesh rd
              = projection_transport ext this1 scene' mesh rd'"
      using assms(3,4) by (rule projection_transport_cong)
    show ?thesis
    proof (cases "projection_transport ext this1 scene' mesh rd'")
      case (Inl e)
      then show ?thesis
        using Inr a pt by (simp add: preprocess_def assms(1,2) Let_def split_beta)
    next
      case this3: (Inr this3)
      note f3 = projection_transport_fields [OF this3]
      have "interreflection ext this3 scene mesh rd = interreflection ext this3 scene' mesh rd'"
        using assms(3) by (rule interreflection_cong) (use assms(5) f1 f3 in simp)
      then show ?thesis
        using Inr a pt this3 by (simp add: preprocess_def assms(1,2) Let_def split_beta)
    qed
  qed
qed

lemma same_hits_refl: "same_hits scene scene"
  by (simp add: same_hits_def)

text \<open>
  Claim C1, as the code has it. The run takes no seed. Its result, the integrator and
  the files, is a function of its inputs and of the variates that the generators, each
  newly seeded from the entropy device, yield: two runs on the same inputs give the same
  result when the variates drawn inside the projection calls agree for every vertex,
  and the pairs drawn for the bounces agree for every bounce from 1 to \<open>m_Bounce\<close>, every
  vertex and every cell of the sampling grid.
\<close>

theorem output_function_of_draws:
  assumes "getMeshes scene = mesh # rest"
    and "\<forall>i<getVertexCount mesh. proj_rng rd i = proj_rng rd' i"
    and "\<forall>b. m_Type this = Interreflection \<and> 1 \<le> b \<and> int b \<le> m_Bounce this \<longrightarrow>
           (\<forall>i<getVertexCount mesh. \<forall>t<nat (sample_side (m_SampleCount this)).
              \<forall>p<nat (sample_side (m_SampleCount this)).
                bounce_rng rd b i t p = bounce_rng rd' b i t p)"
  shows "preprocess ext this scene rd fs = preprocess ext this scene rd' fs"
  using assms(1) assms(1) same_hits_refl assms(2,3) by (rule preprocess_cong)

text \<open>
  Claim C10. The run computes transport coefficients for the first mesh of the scene
  only. Its result is the same for two scenes with the same first mesh whose ray queries
  report the same hits (vertex indices and weights), whatever their other meshes are and
  whichever mesh a hit belongs to; the matrix has one column per vertex of the first
  mesh, and the transport file, its stream having been opened, holds the vertex count
  and the triangles of the first mesh (and what it held before the run otherwise). A
  bounce ray that hits another mesh is interpolated all the same, from the columns of
  the first mesh's matrix that the vertex indices of the hit select.
\<close>

theorem only_first_mesh:
  assumes "getMeshes scene = mesh # rest" and "getMeshes scene' = mesh # rest'"
    and "same_hits scene scene'"
  shows "preprocess ext this scene' rd fs = preprocess ext this scene rd fs
       \<and> (\<forall>this' fs'. preprocess ext this scene rd fs = (Inr this', fs') \<longrightarrow>
            length (m_TransportSHCoeffs this') = getVertexCount mesh
            \<and> fs' (resolve ext (m_CubemapPath this) @ ''/transport.txt'')
                = (if can_open ext (resolve ext (m_CubemapPath this) @ ''/transport.txt'')
                   then Some (unlines (transport_file_lines ext mesh (m_TransportSHCoeffs this')))
                   else fs (resolve ext (m_CubemapPath this) @ ''/transport.txt'')))"
proof -
  have "preprocess ext this scene rd fs = preprocess ext this scene' rd fs"
    using assms by (rule preprocess_cong) simp_all
  moreover have "length (m_TransportSHCoeffs this') = getVertexCount mesh
            \<and> fs' (resolve ext (m_CubemapPath this) @ ''/transport.txt'')
                = (if can_open ext (resolve ext (m_CubemapPath this) @ ''/transport.txt'')
                   then Some (unlines (transport_file_lines ext mesh (m_TransportSHCoeffs this')))
                   else fs (resolve ext (m_CubemapPath this) @ ''/transport.txt''))"
    if "preprocess ext this scene rd fs = (Inr this', fs')" for this' fs'
    using preprocess_shaped [OF that assms(1)] preprocess_transport_file [OF that assms(1)]
    by (simp add: shaped_def)
  ultimately show ?thesis by simp
qed

subsection \<open>Fatal asset errors\<close>

lemma load_face_later:
  assumes "i \<noteq> 0"
  shows "load_face ext dir i (w, h, c, images) =
     (if face_dims ext dir i = Some (w, h, c)
      then Inr (w, h, c, images[i := snd (snd (snd (the (stbi_loadf ext (dir @ ''/'' @ cubemapNames ! i)))))])
      else Inl (Exit (- 1)))"
  using assms
  by (auto simp: load_face_def face_dims_def split: option.splits)

lemma load_loop_fails:
  assumes "\<forall>i \<in> set xs. i \<noteq> 0" and "\<exists>i \<in> set xs. face_dims ext dir i \<noteq> Some (w, h, c)"
  shows "for_loop (load_face ext dir) xs (w, h, c, images) = Inl (Exit (- 1))"
  using assms
proof (induction xs arbitrary: images)
  case Nil
  then show ?case by simp
next
  case (Cons x xs)
  have x: "x \<noteq> 0" using Cons.prems(1) by simp
  show ?case
  proof (cases "face_dims ext dir x = Some (w, h, c)")
    case False
    then show ?thesis by (simp add: load_face_later [OF x])
  next
    case True
    then have "\<exists>i \<in> set xs. face_dims ext dir i \<noteq> Some (w, h, c)"
      using Cons.prems(2) by auto
    then show ?thesis
      using Cons.IH Cons.prems(1) True by (simp add: load_face_later [OF x])
  qed
qed

lemma load_loop_succeeds:
  assumes "\<forall>i \<in> set xs. i \<noteq> 0" and "\<forall>i \<in> set xs. face_dims ext dir i = Some (w, h, c)"
  shows "\<exists>images'. for_loop (load_face ext dir) xs (w, h, c, images) = Inr (w, h, c, images')"
  using assms
proof (induction xs arbitrary: images)
  case Nil
  then show ?case by simp
next
  case (Cons x xs)
  have x: "x \<noteq> 0" using Cons.prems(1) by simp
  show ?case
    using Cons.IH Cons.prems by (simp add: load_face_later [OF x])
qed

lemma upt_0_6: "[0..<6] = 0 # [1..<6]"
  by (simp add: upt_conv_Cons)

lemma LoadCubemapImages_fatal:
  assumes "fatal_asset_error ext dir"
  shows "LoadCubemapImages ext dir = Inl (Exit (- 1))"
proof (cases "stbi_loadf ext (dir @ ''/'' @ cubemapNames ! 0)")
  case None
  then show ?thesis
    by (simp add: LoadCubemapImages_def upt_0_6 load_face_def)
next
  case (Some a)
  obtain w h c img where a: "a = (w, h, c, img)" by (cases a)
  have d0: "face_dims ext dir 0 = Some (w, h, c)"
    using Some a by (simp add: face_dims_def)
  from assms obtain i where i: "i \<in> set [0..<6]"
    and bad: "face_dims ext dir i = None \<or> face_dims ext dir i \<noteq> face_dims ext dir 0"
    by (auto simp: fatal_asset_error_def list_ex_iff)
  have ne: "face_dims ext dir i \<noteq> Some (w, h, c)" using bad d0 by auto
  have "i \<noteq> 0"
  proof
    assume "i = 0"
    with ne d0 show False by simp
  qed
  then have "i \<in> set [1..<6]" using i by simp
  then have "\<exists>i \<in> set [1..<6]. face_dims ext dir i \<noteq> Some (w, h, c)" using ne by blast
  then have "for_loop (load_face ext dir) [1..<6] (w, h, c, (replicate 6 [])[0 := img])
             = Inl (Exit (- 1))"
    by (intro load_loop_fails) auto
  then show ?thesis
    using Some a by (simp add: LoadCubemapImages_def upt_0_6 load_face_def)
qed

lemma LoadCubemapImages_ok:
  assumes "\<not> fatal_asset_error ext dir"
  shows "\<exists>w h c images. LoadCubemapImages ext dir = Inr (w, h, c, images)
           \<and> face_dims ext dir 0 = Some (w, h, c)"
proof -
  have all: "\<forall>i \<in> set [0..<6]. face_dims ext dir i \<noteq> None
          \<and> face_dims ext dir i = face_dims ext dir 0"
  proof (intro ballI, rule ccontr)
    fix i assume i: "i \<in> set [0..<6]"
      and "\<not> (face_dims ext dir i \<noteq> None \<and> face_dims ext dir i = face_dims ext dir 0)"
    then have "face_dims ext dir i = None \<or> face_dims ext dir i \<noteq> face_dims ext dir 0"
      by blast
    with i have "fatal_asset_error ext dir"
      unfolding fatal_asset_error_def list_ex_iff by (rule bexI [rotated])
    with assms show False by blast
  qed
  have "0 \<in> set [0..<6]" by simp
  with all have "face_dims ext dir 0 \<noteq> None" by blast
  then obtain w h c img where
    Some: "stbi_loadf ext (dir @ ''/'' @ cubemapNames ! 0) = Some (w, h, c, img)"
    by (auto simp: face_dims_def)
  have d0: "face_dims ext dir 0 = Some (w, h, c)"
    using Some by (simp add: face_dims_def)
  have "\<forall>i \<in> set [1..<6]. face_dims ext dir i = Some (w, h, c)"
  proof
    fix i assume "i \<in> set [1..<6]"
    then have "i \<in> set [0..<6]" by simp
    with all have "face_dims ext dir i = face_dims ext dir 0" by blast
    with d0 show "face_dims ext dir i = Some (w, h, c)" by simp
  qed
  then have "\<exists>images'. for_loop (load_face ext dir) [1..<6] (w, h, c, (replicate 6 [])[0 := img])
             = Inr (w, h, c, images')"
    by (intro load_loop_succeeds) auto
  then obtain images' where
    "for_loop (load_face ext dir) [1..<6] (w, h, c, (replicate 6 [])[0 := img])
             = Inr (w, h, c, images')" by blast
  then have "LoadCubemapImages ext dir = Inr (w, h, c, images')"
    using Some by (simp add: LoadCubemapImages_def upt_0_6 load_face_def)
  then show ?thesis
    using d0 by blast
qed

lemma preprocess_fatal:
  assumes "getMeshes scene = mesh # rest"
    and "fatal_asset_error ext (resolve ext (m_CubemapPath this))"
  shows "preprocess ext this scene rd fs =
           (Inl (Exit (- 1)),
            (\<lambda>path. if (path = resolve ext (m_CubemapPath this) @ ''/light.txt''
                          \<or> path = resolve ext (m_CubemapPath this) @ ''/transport.txt'')
                         \<and> can_open ext path
                      then Some [] else fs path))"
proof -
  have "LoadCubemapImages ext (resolve ext (m_CubemapPath this)) = Inl (Exit (- 1))"
    using assms(2) by (rule LoadCubemapImages_fatal)
  then have "projection_environment ext this (resolve ext (m_CubemapPath this)) lightFout fs2
             = Inl (Exit (- 1))" for lightFout fs2
    by (simp add: projection_environment_def)
  then show ?thesis
    by (auto simp: preprocess_def assms(1) Let_def ofstream_open_def fun_eq_iff)
qed

text \<open>
  Claim C2, as the code has it. When a face of the cubemap is missing, or the six faces
  do not agree in width, height and channel count, the run ends at once with
  \<^verbatim>\<open>exit(-1)\<close>, before any coefficient is computed or written. The two output streams
  have been constructed before the faces are loaded: each of the light file and the
  transport file whose stream could be opened is left in the file system, empty,
  whatever it held before; one whose stream could not be opened is left as it was,
  absent if it was absent. No other file is touched.
\<close>

theorem fatal_asset_error_aborts:
  assumes "getMeshes scene = mesh # rest"
    and "fatal_asset_error ext (resolve ext (m_CubemapPath this))"
  shows "preprocess ext this scene rd fs =
           (Inl (Exit (- 1)),
            (\<lambda>path. if (path = resolve ext (m_CubemapPath this) @ ''/light.txt''
                          \<or> path = resolve ext (m_CubemapPath this) @ ''/transport.txt'')
                         \<and> can_open ext path
                      then Some [] else fs path))"
  using assms by (rule preprocess_fatal)

lemma for_loop_succeeds:
  assumes "P s" and "\<And>x t. x \<in> set xs \<Longrightarrow> P t \<Longrightarrow> \<exists>t'. body x t = Inr t' \<and> P t'"
  shows "\<exists>s'. for_loop body xs s = Inr s' \<and> P s'"
  using assms
proof (induction xs arbitrary: s)
  case Nil
  then show ?case by simp
next
  case (Cons x xs)
  from Cons.prems(2) [of x s] Cons.prems(1) obtain t where t: "body x s = Inr t" "P t"
    by auto
  have "\<exists>s'. for_loop body xs t = Inr s' \<and> P s'"
    using t(2) Cons.prems(2) by (intro Cons.IH) auto
  then show ?case using t(1) by simp
qed

subsection \<open>The example, evaluated\<close>

lemma ex_sizes: "SHCoeffLength = 9"
  by (simp add: SHCoeffLength_def SHOrder_def)

lemma ex_load:
  "LoadCubemapImages example_ext ''cubemap/Indoor''
     = Inr (1, 1, 3, [[1, 1, 1], [1, 1, 1], [1, 1, 1], [1, 1, 1], [1, 1, 1], [1, 1, 1]])"
  by (simp add: LoadCubemapImages_def load_face_def example_ext_def upt_conv_Cons
      eval_nat_numeral)

lemma ex_side: "sample_side 1 = 1"
  by (simp add: sample_side_def)

lemma ex_weight: "sample_side N = 1 \<Longrightarrow> bounce_weight N = Finite (4 * pi)"
  by (simp add: bounce_weight_def)

lemma ex_dir_hit: "sh_ToVector (2 * pi * ((real 0 + 0) / real_of_int 1))
    (arccos (2 * ((real 0 + 1 / 2) / real_of_int 1) - 1)) = (1, 0, 0)"
  by (simp add: sh_ToVector_def)

lemma ex_dir_miss: "sh_ToVector (2 * pi * ((real 0 + 1 / 2) / real_of_int 1))
    (arccos (2 * ((real 0 + 1 / 2) / real_of_int 1) - 1)) = (- 1, 0, 0)"
  by (simp add: sh_ToVector_def)

lemma ex_normalized: "normalized (1, 0, 0) = (1, 0, 0)" "normalized (- 1, 0, 0) = (- 1, 0, 0)"
  by (simp_all add: normalized_def squaredNorm_def dot_def scale3_def vx_def vy_def vz_def)

lemma ex_length: "SHCoeffLength = 9"
  by (simp add: SHCoeffLength_def SHOrder_def)

lemma ex_upt9: "[0..<9] = [0, 1, 2, 3, 4, 5, 6, 7, 8]"
  by (simp add: upt_conv_Cons)

lemma ex_upt3: "[0..<3] = [0, 1, 2]"
  by (simp add: upt_conv_Cons)

lemma ex_sample_hit:
  "bounce_sample example_ext example_scene (example_matrix a b c) (0, 0, 0) (1, 0, 0) 1
     (1 / 2, 0) 0 0 (map Finite [0, 0, 0, 0, 0, 0, 0, 0, 0])
   = Inr (map Finite [a / 2 + b / 4 + c / 4, 0, 0, 0, 0, 0, 0, 0, 0])"
  using ex_dir_hit
  by (simp add: bounce_sample_def example_ext_def ex_normalized dot_def vx_def vy_def vz_def
      example_scene_def example_hit_def example_matrix_def interpolateSH_def ex_length ex_upt9)

lemma ex_sample_away:
  "bounce_sample example_ext example_scene M (0, 0, 0) (1, 0, 0) 1 (1 / 2, 1 / 2) 0 0 E = Inr E"
  using ex_dir_miss
  by (simp add: bounce_sample_def example_ext_def ex_normalized dot_def vx_def vy_def vz_def)

lemma ex_sample_free:
  assumes "v \<noteq> (0, 0, 0)"
  shows "bounce_sample example_ext example_scene M v n 1 r 0 0 E = Inr E"
  using assms by (simp add: bounce_sample_def Let_def example_scene_def)

lemma ex_coeffs_hit:
  assumes "sample_side (m_SampleCount this) = 1" and "m_TransportSHCoeffs this = example_matrix a b c"
  shows "bounce_coeffs example_ext this example_scene example_mesh (\<lambda>t p. (1 / 2, 0)) 0
     = Inr (map Finite [(a / 2 + b / 4 + c / 4) * (4 * pi), 0, 0, 0, 0, 0, 0, 0, 0])"
proof -
  have "bounce_samples example_ext this example_scene example_mesh (\<lambda>t p. (1 / 2, 0)) 0
     = Inr (map Finite [a / 2 + b / 4 + c / 4, 0, 0, 0, 0, 0, 0, 0, 0])"
    using ex_sample_hit [of a b c] assms
    by (simp add: bounce_samples_def example_mesh_def ex_length eval_nat_numeral zero_float_def)
  then show ?thesis
    using ex_weight [OF assms(1)] by (simp add: bounce_coeffs_def)
qed

lemma ex_coeffs_away:
  assumes "sample_side (m_SampleCount this) = 1"
  shows "bounce_coeffs example_ext this example_scene example_mesh (\<lambda>t p. (1 / 2, 1 / 2)) 0
     = Inr (map Finite [0, 0, 0, 0, 0, 0, 0, 0, 0])"
proof -
  have "bounce_samples example_ext this example_scene example_mesh (\<lambda>t p. (1 / 2, 1 / 2)) 0
     = Inr (map Finite [0, 0, 0, 0, 0, 0, 0, 0, 0])"
    using assms
    by (simp add: bounce_samples_def example_mesh_def ex_length eval_nat_numeral
        ex_sample_away zero_float_def)
  then show ?thesis
    using ex_weight [OF assms(1)] by (simp add: bounce_coeffs_def)
qed

lemma ex_coeffs_free:
  assumes "sample_side (m_SampleCount this) = 1" and "i = 1 \<or> i = 2"
  shows "bounce_coeffs example_ext this example_scene example_mesh rng i
     = Inr (map Finite [0, 0, 0, 0, 0, 0, 0, 0, 0])"
proof -
  have "bounce_samples example_ext this example_scene example_mesh rng i
     = Inr (map Finite [0, 0, 0, 0, 0, 0, 0, 0, 0])"
    using assms
    by (auto simp: bounce_samples_def example_mesh_def ex_length eval_nat_numeral
        ex_sample_free zero_float_def)
  then show ?thesis
    using ex_weight [OF assms(1)] by (simp add: bounce_coeffs_def)
qed

lemma ex_vertex_count: "getVertexCount example_mesh = 3"
  by (simp add: getVertexCount_def example_mesh_def)

lemma ex_bounce_hit:
  assumes "sample_side (m_SampleCount this) = 1" and "m_TransportSHCoeffs this = example_matrix a b c"
  shows "bounce example_ext example_scene example_mesh example_rd k this
     = Inr (this\<lparr> m_TransportSHCoeffs :=
                    example_matrix (a + (a / 2 + b / 4 + c / 4) * (4 * pi)) b c \<rparr>)"
  using assms ex_coeffs_hit [OF assms] ex_coeffs_free [OF assms(1)]
  by (simp add: bounce_def ex_vertex_count ex_upt3 bounce_vertex_def example_rd_def ex_length
      matrix_add_def example_matrix_def eval_nat_numeral)

lemma ex_bounce_away:
  assumes "sample_side (m_SampleCount this) = 1" and "m_TransportSHCoeffs this = example_matrix a b c"
  shows "bounce example_ext example_scene example_mesh example_rd' k this
     = Inr (this\<lparr> m_TransportSHCoeffs := example_matrix a b c \<rparr>)"
  using assms ex_coeffs_away [OF assms(1)] ex_coeffs_free [OF assms(1)]
  by (simp add: bounce_def ex_vertex_count ex_upt3 bounce_vertex_def example_rd'_def ex_length
      matrix_add_def example_matrix_def eval_nat_numeral)

lemma ex_bands:
  "bands = [(0, 0), (1, - 1), (1, 0), (1, 1), (2, - 2), (2, - 1), (2, 0), (2, 1), (2, 2)]"
  by (simp add: bands_def SHOrder_def upto.simps)

lemma ex_texels: "texels 1 1 = [(0, 0, 0), (1, 0, 0), (2, 0, 0), (3, 0, 0), (4, 0, 0), (5, 0, 0)]"
  by (simp add: texels_def upt_conv_Cons)

lemma ex_texel:
  assumes "i < 6" and "length SH = 9"
  shows "\<exists>SH'. project_texel example_ext example_images 1 1 3 (i, 0, 0) SH = Inr SH'
           \<and> length SH' = 9"
proof -
  have "\<exists>SH'. for_loop (project_band example_ext dir Le deltaW) bands SH = Inr SH' \<and> length SH' = 9"
    for dir Le deltaW
    using assms(2)
    by (simp add: ex_bands project_band_def example_ext_def)
  moreover have "i < length (cubemapDirs 1 1)" "i < length example_images"
    "2 < length (example_images ! i)"
    using assms(1) by (auto simp: cubemapDirs_def ex_texels example_images_def nth_Cons' )
  ultimately show ?thesis
    by (simp add: project_texel_def Let_def)
qed

lemma ex_env:
  "\<exists>envCoeffs. PrecomputeCubemapSH example_ext example_images 1 1 3 = Inr envCoeffs"
proof -
  have "\<exists>SH'. for_loop (project_texel example_ext example_images 1 1 3) (texels 1 1)
           (replicate SHCoeffLength (0, 0, 0)) = Inr SH' \<and> length SH' = 9"
  proof (rule for_loop_succeeds)
    show "length (replicate SHCoeffLength ((0, 0, 0)::vec3)) = 9" by (simp add: ex_length)
  next
    fix x t assume "x \<in> set (texels 1 1)" and "length (t::vec3 list) = 9"
    then show "\<exists>t'. project_texel example_ext example_images 1 1 3 x t = Inr t' \<and> length t' = 9"
      by (auto simp: ex_texels intro: ex_texel)
  qed
  then show ?thesis by (auto simp: PrecomputeCubemapSH_def)
qed

lemma ex_projection_environment:
  "\<exists>envCoeffs. projection_environment example_ext this ''cubemap/Indoor'' lightFout fs
     = Inr (this\<lparr> m_LightCoeffs := envCoeffs \<rparr>,
            ofstream_write lightFout fs (concat (map (light_line example_ext) envCoeffs)))"
  using ex_env
  by (auto simp: projection_environment_def ex_load example_images_def)

lemma ex_shFunc:
  "shFunc example_ext Interreflection example_scene v (1, 0, 0) 0 (pi / 2)
     = (if v = (0, 0, 0) then 0 else 1)"
  by (simp add: shFunc_def example_ext_def sh_ToVector_def ex_normalized dot_def vx_def vy_def vz_def
      example_scene_def)

lemma ex_ProjectFunction:
  "ProjectFunction example_ext order f sample_count rng = Inr (f 0 (pi / 2) # replicate 8 0)"
  by (simp add: example_ext_def)

lemma ex_project_vertex:
  assumes "m_Type this = Interreflection" and "i < 3" and "length M = 3" and "length (M ! i) = 9"
  shows "project_vertex example_ext this example_scene example_mesh rd i M
     = Inr (M[i := map Finite [if i = 0 then 0 else 1, 0, 0, 0, 0, 0, 0, 0, 0]])"
proof -
  have "i = 0 \<or> i = 1 \<or> i = 2" using assms(2) by auto
  then show ?thesis
    using assms(1,3,4)
    by (auto simp: project_vertex_def example_mesh_def ex_shFunc ex_ProjectFunction
        eval_nat_numeral)
qed

lemma ex_projection_transport:
  assumes "m_Type this = Interreflection"
  shows "projection_transport example_ext this example_scene example_mesh rd
     = Inr (this\<lparr> m_TransportSHCoeffs := example_matrix 0 1 1 \<rparr>)"
  using assms
  by (simp add: projection_transport_def ex_vertex_count ex_upt3 ex_project_vertex
      ex_length example_matrix_def eval_nat_numeral zero_float_def)

lemma ex_interreflection:
  assumes "m_Type this = Interreflection" and "m_Bounce this = 1" and "m_SampleCount this = 1"
    and "m_TransportSHCoeffs this = example_matrix 0 1 1"
  shows "interreflection example_ext this example_scene example_mesh example_rd
           = Inr (this\<lparr> m_TransportSHCoeffs := example_matrix (2 * pi) 1 1 \<rparr>)"
    and "interreflection example_ext this example_scene example_mesh example_rd'
           = Inr (this\<lparr> m_TransportSHCoeffs := example_matrix 0 1 1 \<rparr>)"
proof -
  have side: "sample_side (m_SampleCount this) = 1" using assms(3) by (simp add: ex_side)
  show "interreflection example_ext this example_scene example_mesh example_rd
           = Inr (this\<lparr> m_TransportSHCoeffs := example_matrix (2 * pi) 1 1 \<rparr>)"
    using assms(1,2) ex_bounce_hit [OF side assms(4)]
    by (simp add: interreflection_def bounces_def)
  show "interreflection example_ext this example_scene example_mesh example_rd'
           = Inr (this\<lparr> m_TransportSHCoeffs := example_matrix 0 1 1 \<rparr>)"
    using assms(1,2) ex_bounce_away [OF side assms(4)]
    by (simp add: interreflection_def bounces_def)
qed

lemma ex_meshes: "getMeshes example_scene = example_mesh # [example_wall]"
  by (simp add: example_scene_def)

lemma ex_config:
  "m_Type example_this = Interreflection" "m_Bounce example_this = 1"
  "m_SampleCount example_this = 1" "m_CubemapPath example_this = ''cubemap/Indoor''"
  by (simp_all add: example_this_def)

lemma ex_resolve: "resolve example_ext path = path"
  by (simp add: example_ext_def)

lemma ex_save:
  assumes "m_TransportSHCoeffs this = example_matrix a b c"
  shows "\<exists>fs'. for_loop (save_face ext this fout) (Indices example_mesh) fs = Inr fs'"
  using assms by (simp add: example_mesh_def save_face_def example_matrix_def)

lemma ex_preprocess:
  assumes "\<And>this. m_Type this = Interreflection \<Longrightarrow> m_Bounce this = 1 \<Longrightarrow> m_SampleCount this = 1
             \<Longrightarrow> m_TransportSHCoeffs this = example_matrix 0 1 1
             \<Longrightarrow> interreflection example_ext this example_scene example_mesh rd
                   = Inr (this\<lparr> m_TransportSHCoeffs := example_matrix a 1 1 \<rparr>)"
  shows "\<exists>envCoeffs fs'.
     preprocess example_ext example_this example_scene rd fs
       = (Inr (example_this\<lparr> m_LightCoeffs := envCoeffs,
                              m_TransportSHCoeffs := example_matrix a 1 1 \<rparr>), fs')"
proof -
  let ?lightFout = "fst (ofstream_open example_ext fs ''cubemap/Indoor/light.txt'')"
  let ?fs1 = "snd (ofstream_open example_ext fs ''cubemap/Indoor/light.txt'')"
  let ?fout = "fst (ofstream_open example_ext ?fs1 ''cubemap/Indoor/transport.txt'')"
  let ?fs2 = "snd (ofstream_open example_ext ?fs1 ''cubemap/Indoor/transport.txt'')"
  obtain envCoeffs where env:
    "projection_environment example_ext example_this ''cubemap/Indoor'' ?lightFout ?fs2
     = Inr (example_this\<lparr> m_LightCoeffs := envCoeffs \<rparr>,
            ofstream_write ?lightFout ?fs2 (concat (map (light_line example_ext) envCoeffs)))"
    using ex_projection_environment by blast
  let ?this1 = "example_this\<lparr> m_LightCoeffs := envCoeffs \<rparr>"
  let ?this3 = "?this1\<lparr> m_TransportSHCoeffs := example_matrix 0 1 1 \<rparr>"
  let ?this4 = "?this3\<lparr> m_TransportSHCoeffs := example_matrix a 1 1 \<rparr>"
  have t: "projection_transport example_ext ?this1 example_scene example_mesh rd = Inr ?this3"
    by (rule ex_projection_transport) (simp add: ex_config)
  have b: "interreflection example_ext ?this3 example_scene example_mesh rd = Inr ?this4"
    by (rule assms) (simp_all add: ex_config)
  obtain fs' where s: "for_loop (save_face example_ext ?this4 ?fout)
       (Indices example_mesh)
       (ofstream_write ?fout
          (ofstream_write ?lightFout ?fs2 (concat (map (light_line example_ext) envCoeffs)))
          (show_nat example_ext (getVertexCount example_mesh) @ endl))
       = Inr fs'"
    using ex_save [of ?this4 a 1 1] by simp blast
  have "preprocess example_ext example_this example_scene rd fs = (Inr ?this4, fs')"
    using env t b s by (simp add: preprocess_def ex_meshes ex_config ex_resolve split_beta)
  then show ?thesis by auto
qed

lemmas ex_preprocess_hit = ex_preprocess [of example_rd "2 * pi", OF ex_interreflection(1)]

lemmas ex_preprocess_away = ex_preprocess [of example_rd' 0, OF ex_interreflection(2)]

lemma ex_two_pi: "2 * pi \<noteq> 0" "2 * pi \<noteq> 1"
  using pi_ge_two by simp_all

lemma ex_can_open: "can_open example_ext path"
  by (simp add: example_ext_def)

lemma ex_transport_text:
  "unlines (transport_file_lines example_ext example_mesh (example_matrix a 1 1))
     = ''3'' @ endl @ show_float example_ext (Finite a) @ '' 0 0 0 0 0 0 0 0 '' @ endl
       @ ''1 0 0 0 0 0 0 0 0 '' @ endl @ ''1 0 0 0 0 0 0 0 0 '' @ endl"
  by (simp add: unlines_def transport_file_lines_def face_rows_def coeff_row_def getVertexCount_def
      example_matrix_def example_mesh_def example_ext_def)

lemma ex_missing_fatal: "fatal_asset_error example_ext_missing ''cubemap/Indoor''"
  by (simp add: fatal_asset_error_def face_dims_def example_ext_missing_def example_ext_def
      cubemapNames_def upt_conv_Cons)

lemma ex_missing_resolve: "resolve example_ext_missing path = path"
  by (simp add: example_ext_missing_def example_ext_def)

lemma ex_missing_can_open: "can_open example_ext_missing path"
  by (simp add: example_ext_missing_def example_ext_def)

lemma ex_nodir_fatal: "fatal_asset_error example_ext_nodir ''cubemap/Indoor''"
  by (simp add: fatal_asset_error_def face_dims_def example_ext_nodir_def upt_conv_Cons)

lemma ex_nodir_resolve: "resolve example_ext_nodir path = path"
  by (simp add: example_ext_nodir_def example_ext_def)

lemma ex_nodir_can_open: "\<not> can_open example_ext_nodir path"
  by (simp add: example_ext_nodir_def)

lemma ex_opened_files:
  "(\<lambda>path. if path = L \<or> path = T then Some [] else fs path) = fs(L \<mapsto> [], T \<mapsto> [])"
  by (auto simp: fun_eq_iff)

lemma ex_side2: "sample_side 2 = 1"
proof -
  have "1 \<le> sqrt 2" by simp
  moreover have "sqrt 2 < 2" by (rule real_less_lsqrt) simp_all
  ultimately show ?thesis by (simp add: sample_side_def floor_eq_iff)
qed

lemma ex_side10: "sample_side 10 = 3"
proof -
  have "3 \<le> sqrt 10" by (rule real_le_rsqrt) simp
  moreover have "sqrt 10 < 4" by (rule real_less_lsqrt) simp_all
  ultimately show ?thesis by (simp add: sample_side_def floor_eq_iff)
qed

lemma ex_this_matrix: "m_TransportSHCoeffs example_this = example_matrix 1 2 3"
  by (simp add: example_this_def example_matrix_def)

lemma ex_rng: "bounce_rng example_rd b i = (\<lambda>t p. (1 / 2, 0))"
  by (simp add: example_rd_def)

lemma ex_this_side: "sample_side (m_SampleCount example_this) = 1"
  by (simp add: ex_config ex_side)

lemma ex_coeffs_this:
  "bounce_coeffs example_ext example_this example_scene example_mesh (bounce_rng example_rd 1 0) 0
     = Inr (map Finite [7 * pi, 0, 0, 0, 0, 0, 0, 0, 0])"
  using ex_coeffs_hit [OF ex_this_side ex_this_matrix] by (simp add: ex_rng)

lemma ex_bounce_this:
  "bounce example_ext example_scene example_mesh example_rd k example_this
     = Inr (example_this\<lparr> m_TransportSHCoeffs := example_matrix (1 + 7 * pi) 2 3 \<rparr>)"
  using ex_bounce_hit [OF ex_this_side ex_this_matrix, of k] by simp






lemma ex_same_hits:
  "same_hits example_scene (example_scene\<lparr> getMeshes := [example_mesh] \<rparr>)"
  by (simp add: same_hits_def)

lemma ex_ToVector: "ToVector example_ext 0 (pi / 2) = (1, 0, 0)"
  by (simp add: example_ext_def sh_ToVector_def)

subsection \<open>Instances of the theorems on the example, and where the claims fail\<close>

theorem unsupported_type_raises_witness:
  "PRTIntegrator_new example_props = Inl (NoriException ''Unsupported type: diffuse.'')"
  using unsupported_type_raises [of example_props "''diffuse''"]
  by (simp add: example_props_def)

theorem Li_reconstruction_witness:
  "Li example_this example_scene ((0, 0, 0), (1, 0, 0))
     = Inr (Finite (7 / 4), Finite (7 / 8), Finite (7 / 16))
   \<and> Li example_this example_scene ((0, 0, 0), (- 1, 0, 0)) = Inr (0, 0, 0)"
  using Li_reconstruction [of example_scene "((0, 0, 0), (1, 0, 0))" example_this]
    Li_reconstruction [of example_scene "((0, 0, 0), (- 1, 0, 0))" example_this]
  by (simp add: example_this_def example_scene_def example_hit_def ex_sizes vertex_color_def
      vx_def vy_def vz_def eval_nat_numeral)

text \<open>Two runs on the same inputs, with different variates from the entropy device, write
  different transport files.\<close>

theorem seedless_sampling_counterexample:
  "bounce example_ext example_scene example_mesh example_rd 1 example_this
     = Inr (example_this\<lparr> m_TransportSHCoeffs := example_matrix (1 + 7 * pi) 2 3 \<rparr>)
   \<and> bounce example_ext example_scene example_mesh example_rd' 1 example_this
     = Inr (example_this\<lparr> m_TransportSHCoeffs := example_matrix 1 2 3 \<rparr>)
   \<and> snd (preprocess example_ext example_this example_scene example_rd Map.empty)
       ''cubemap/Indoor/transport.txt''
     = Some (''3'' @ endl @ ''x 0 0 0 0 0 0 0 0 '' @ endl @ ''1 0 0 0 0 0 0 0 0 '' @ endl
             @ ''1 0 0 0 0 0 0 0 0 '' @ endl)
   \<and> snd (preprocess example_ext example_this example_scene example_rd' Map.empty)
       ''cubemap/Indoor/transport.txt''
     = Some (''3'' @ endl @ ''0 0 0 0 0 0 0 0 0 '' @ endl @ ''1 0 0 0 0 0 0 0 0 '' @ endl
             @ ''1 0 0 0 0 0 0 0 0 '' @ endl)"
proof -
  have side: "sample_side (m_SampleCount example_this) = 1"
    by (simp add: ex_config ex_side)
  have M: "m_TransportSHCoeffs example_this = example_matrix 1 2 3"
    by (simp add: example_this_def example_matrix_def)
  have b1: "bounce example_ext example_scene example_mesh example_rd 1 example_this
     = Inr (example_this\<lparr> m_TransportSHCoeffs := example_matrix (1 + 7 * pi) 2 3 \<rparr>)"
    using ex_bounce_hit [OF side M, of 1] by simp
  have b2: "bounce example_ext example_scene example_mesh example_rd' 1 example_this
     = Inr (example_this\<lparr> m_TransportSHCoeffs := example_matrix 1 2 3 \<rparr>)"
    using ex_bounce_away [OF side M, of 1] by simp
  obtain env1 fs1 where 1:
    "preprocess example_ext example_this example_scene example_rd Map.empty
       = (Inr (example_this\<lparr> m_LightCoeffs := env1,
                              m_TransportSHCoeffs := example_matrix (2 * pi) 1 1 \<rparr>), fs1)"
    using ex_preprocess_hit by blast
  obtain env2 fs2 where 2:
    "preprocess example_ext example_this example_scene example_rd' Map.empty
       = (Inr (example_this\<lparr> m_LightCoeffs := env2,
                              m_TransportSHCoeffs := example_matrix 0 1 1 \<rparr>), fs2)"
    using ex_preprocess_away by blast
  have sf: "show_float example_ext (Finite (2 * pi)) = ''x''"
    "show_float example_ext (Finite 0) = ''0''"
    using ex_two_pi by (simp_all add: example_ext_def)
  have "snd (preprocess example_ext example_this example_scene example_rd Map.empty)
       ''cubemap/Indoor/transport.txt''
     = Some (''3'' @ endl @ ''x 0 0 0 0 0 0 0 0 '' @ endl @ ''1 0 0 0 0 0 0 0 0 '' @ endl
             @ ''1 0 0 0 0 0 0 0 0 '' @ endl)"
    using preprocess_transport_file [OF 1 ex_meshes]
    by (simp add: 1 ex_resolve ex_config ex_transport_text ex_can_open sf)
  moreover have "snd (preprocess example_ext example_this example_scene example_rd' Map.empty)
       ''cubemap/Indoor/transport.txt''
     = Some (''3'' @ endl @ ''0 0 0 0 0 0 0 0 0 '' @ endl @ ''1 0 0 0 0 0 0 0 0 '' @ endl
             @ ''1 0 0 0 0 0 0 0 0 '' @ endl)"
    using preprocess_transport_file [OF 2 ex_meshes]
    by (simp add: 2 ex_resolve ex_config ex_transport_text ex_can_open sf)
  ultimately show ?thesis using b1 b2 by blast
qed

theorem output_function_of_draws_witness:
  "bounce_rng example_rd 2 0 0 0 \<noteq> bounce_rng example_rd_far 2 0 0 0
   \<and> preprocess example_ext example_this example_scene example_rd Map.empty
     = preprocess example_ext example_this example_scene example_rd_far Map.empty"
  using output_function_of_draws [OF ex_meshes, of example_rd example_rd_far example_this
      example_ext Map.empty]
  by (simp add: example_rd_def example_rd_far_def ex_config ex_side)

text \<open>With the last face missing, the output directory writable and no output file before
  the run, the run exits with -1 and leaves an empty light file and an empty transport
  file.\<close>

theorem partial_files_counterexample:
  "preprocess example_ext_missing example_this example_scene example_rd Map.empty
     = (Inl (Exit (- 1)),
        [''cubemap/Indoor/light.txt'' \<mapsto> [], ''cubemap/Indoor/transport.txt'' \<mapsto> []])"
  using preprocess_fatal [OF ex_meshes, of example_ext_missing example_this example_rd Map.empty]
  by (simp add: ex_missing_resolve ex_config ex_missing_fatal ex_missing_can_open
      ex_opened_files)

theorem fatal_asset_error_aborts_witness:
  "fatal_asset_error example_ext_missing ''cubemap/Indoor''
   \<and> preprocess example_ext_missing example_this example_scene example_rd
         [''cubemap/Indoor/transport.txt'' \<mapsto> ''3'']
     = (Inl (Exit (- 1)),
        [''cubemap/Indoor/transport.txt'' \<mapsto> [], ''cubemap/Indoor/light.txt'' \<mapsto> []])
   \<and> fatal_asset_error example_ext_nodir ''cubemap/Indoor''
   \<and> preprocess example_ext_nodir example_this example_scene example_rd Map.empty
     = (Inl (Exit (- 1)), Map.empty)"
proof -
  have m: "fatal_asset_error example_ext_missing
             (resolve example_ext_missing (m_CubemapPath example_this))"
    by (simp add: ex_missing_resolve ex_config ex_missing_fatal)
  have n: "fatal_asset_error example_ext_nodir
             (resolve example_ext_nodir (m_CubemapPath example_this))"
    by (simp add: ex_nodir_resolve ex_config ex_nodir_fatal)
  have "(\<lambda>path. if (path = resolve example_ext_missing (m_CubemapPath example_this) @ ''/light.txt''
                       \<or> path = resolve example_ext_missing (m_CubemapPath example_this)
                                  @ ''/transport.txt'')
                      \<and> can_open example_ext_missing path
                   then Some [] else [''cubemap/Indoor/transport.txt'' \<mapsto> ''3''] path)
        = [''cubemap/Indoor/transport.txt'' \<mapsto> [], ''cubemap/Indoor/light.txt'' \<mapsto> []]"
    by (auto simp: fun_eq_iff ex_missing_resolve ex_config ex_missing_can_open)
  moreover have
    "(\<lambda>path. if (path = resolve example_ext_nodir (m_CubemapPath example_this) @ ''/light.txt''
                       \<or> path = resolve example_ext_nodir (m_CubemapPath example_this)
                                  @ ''/transport.txt'')
                      \<and> can_open example_ext_nodir path
                   then Some [] else Map.empty path)
        = Map.empty"
    by (simp add: ex_nodir_can_open)
  ultimately show ?thesis
    using fatal_asset_error_aborts [OF ex_meshes m, of example_rd
        "[''cubemap/Indoor/transport.txt'' \<mapsto> ''3'']"]
      fatal_asset_error_aborts [OF ex_meshes n, of example_rd Map.empty]
      ex_missing_fatal ex_nodir_fatal
    by simp
qed

text \<open>With a sample count of 2 the grid has one cell, and the one contribution is scaled
  by \<open>4 pi\<close>, not by \<open>4 pi / 2\<close>; with a sample count of 10 the weight is \<open>4 pi / 9\<close>.\<close>

theorem sample_weight_counterexample:
  "bounce_coeffs example_ext (example_this\<lparr> m_SampleCount := 2 \<rparr>) example_scene example_mesh
       (bounce_rng example_rd 1 0) 0
     = Inr (map Finite [(1 / 2 + 2 / 4 + 3 / 4) * (4 * pi), 0, 0, 0, 0, 0, 0, 0, 0])
   \<and> (1 / 2 + 2 / 4 + 3 / 4) * (4 * pi) \<noteq> (1 / 2 + 2 / 4 + 3 / 4) * (4 * pi / 2)
   \<and> bounce_weight 10 = Finite (4 * pi / 9)
   \<and> 4 * pi / 9 \<noteq> 4 * pi / 10"
proof -
  have "bounce_coeffs example_ext (example_this\<lparr> m_SampleCount := 2 \<rparr>) example_scene example_mesh
       (\<lambda>t p. (1 / 2, 0)) 0
     = Inr (map Finite [(1 / 2 + 2 / 4 + 3 / 4) * (4 * pi), 0, 0, 0, 0, 0, 0, 0, 0])"
    by (rule ex_coeffs_hit) (simp_all add: ex_side2 ex_this_matrix)
  moreover have "bounce_weight 10 = Finite (4 * pi / 9)"
    by (simp add: bounce_weight_def ex_side10)
  ultimately show ?thesis by (simp add: ex_rng)
qed

theorem bounce_weight_is_grid_weight_witness:
  "bounce_coeffs example_ext example_this example_scene example_mesh (bounce_rng example_rd 1 0) 0
     = Inr (map Finite [7 * pi, 0, 0, 0, 0, 0, 0, 0, 0])
   \<and> Finite (7 * pi)
     = sample_contribution example_ext example_scene (m_TransportSHCoeffs example_this)
         (VertexPositions example_mesh ! 0) (VertexNormals example_mesh ! 0) 1
         (bounce_rng example_rd 1 0 0 0) 0 0 0 * Finite (4 * pi / real_of_int (1 * 1))
   \<and> m_SampleCount example_this = 1 * 1"
proof -
  have j: "0 < SHCoeffLength" by (simp add: ex_length)
  have N: "1 \<le> m_SampleCount example_this" by (simp add: ex_config)
  from bounce_weight_is_grid_weight [OF ex_coeffs_this j N]
  have "map Finite [7 * pi, 0, 0, 0, 0, 0, 0, 0, 0] ! 0 =
     (\<Sum>t<nat (sample_side (m_SampleCount example_this)).
        \<Sum>p<nat (sample_side (m_SampleCount example_this)).
          sample_contribution example_ext example_scene (m_TransportSHCoeffs example_this)
            (VertexPositions example_mesh ! 0) (VertexNormals example_mesh ! 0)
            (sample_side (m_SampleCount example_this)) (bounce_rng example_rd 1 0 t p) t p 0)
     * Finite (4 * pi / real_of_int (sample_side (m_SampleCount example_this)
                               * sample_side (m_SampleCount example_this)))"
    by (rule conjunct1)
  then have "Finite (7 * pi)
     = sample_contribution example_ext example_scene (m_TransportSHCoeffs example_this)
         (VertexPositions example_mesh ! 0) (VertexNormals example_mesh ! 0) 1
         (bounce_rng example_rd 1 0 0 0) 0 0 0 * Finite (4 * pi / real_of_int (1 * 1))"
    unfolding ex_this_side by simp
  then show ?thesis using ex_coeffs_this by (simp add: ex_config)
qed



theorem bounce_double_buffered_witness:
  "bounce example_ext example_scene example_mesh example_rd 1 example_this
     = Inr (example_this\<lparr> m_TransportSHCoeffs := example_matrix (1 + 7 * pi) 2 3 \<rparr>)
   \<and> bounce_coeffs example_ext example_this example_scene example_mesh (bounce_rng example_rd 1 0) 0
     = Inr (map Finite [7 * pi, 0, 0, 0, 0, 0, 0, 0, 0])
   \<and> example_matrix (1 + 7 * pi) 2 3 ! 0
     = map2 (+) (example_matrix 1 2 3 ! 0) (map Finite [7 * pi, 0, 0, 0, 0, 0, 0, 0, 0])"
proof -
  have len: "length (m_TransportSHCoeffs example_this) = getVertexCount example_mesh"
    by (simp add: ex_this_matrix example_matrix_def ex_vertex_count)
  have v: "0 < getVertexCount example_mesh" by (simp add: ex_vertex_count)
  from bounce_double_buffered [OF ex_bounce_this len] v
  obtain col where
    c: "bounce_coeffs example_ext example_this example_scene example_mesh
          (bounce_rng example_rd 1 0) 0 = Inr col"
    and m: "m_TransportSHCoeffs (example_this\<lparr> m_TransportSHCoeffs := example_matrix (1 + 7 * pi) 2 3 \<rparr>) ! 0
                = map2 (+) (m_TransportSHCoeffs example_this ! 0) col"
    by blast
  from c have "col = map Finite [7 * pi, 0, 0, 0, 0, 0, 0, 0, 0]"
    unfolding ex_coeffs_this by simp
  with m have "example_matrix (1 + 7 * pi) 2 3 ! 0
     = map2 (+) (example_matrix 1 2 3 ! 0) (map Finite [7 * pi, 0, 0, 0, 0, 0, 0, 0, 0])"
    by (simp add: ex_this_matrix)
  with ex_bounce_this ex_coeffs_this show ?thesis by blast
qed

theorem transport_file_layout_witness:
  "\<exists>this' fs'.
     preprocess example_ext example_this example_scene example_rd' Map.empty = (Inr this', fs')
     \<and> m_TransportSHCoeffs this' = example_matrix 0 1 1
     \<and> fs' ''cubemap/Indoor/transport.txt''
       = Some (''3'' @ endl @ ''0 0 0 0 0 0 0 0 0 '' @ endl @ ''1 0 0 0 0 0 0 0 0 '' @ endl
               @ ''1 0 0 0 0 0 0 0 0 '' @ endl)"
proof -
  obtain env fs' where p:
    "preprocess example_ext example_this example_scene example_rd' Map.empty
       = (Inr (example_this\<lparr> m_LightCoeffs := env,
                              m_TransportSHCoeffs := example_matrix 0 1 1 \<rparr>), fs')"
    using ex_preprocess_away by blast
  have "show_float example_ext (Finite 0) = ''0''" by (simp add: example_ext_def)
  then have "fs' ''cubemap/Indoor/transport.txt''
       = Some (''3'' @ endl @ ''0 0 0 0 0 0 0 0 0 '' @ endl @ ''1 0 0 0 0 0 0 0 0 '' @ endl
               @ ''1 0 0 0 0 0 0 0 0 '' @ endl)"
    using transport_file_layout [OF p ex_meshes]
    by (simp add: ex_resolve ex_config ex_transport_text ex_can_open)
  with p show ?thesis by simp
qed

theorem only_first_mesh_witness:
  "getMeshes example_scene = [example_mesh, example_wall]
   \<and> preprocess example_ext example_this (example_scene\<lparr> getMeshes := [example_mesh] \<rparr>)
         example_rd Map.empty
     = preprocess example_ext example_this example_scene example_rd Map.empty
   \<and> (\<exists>this' fs'. preprocess example_ext example_this example_scene example_rd Map.empty
                      = (Inr this', fs')
         \<and> length (m_TransportSHCoeffs this') = 3)"
proof -
  have m': "getMeshes (example_scene\<lparr> getMeshes := [example_mesh] \<rparr>) = example_mesh # []"
    by simp
  note t = only_first_mesh [OF ex_meshes m' ex_same_hits, of example_ext example_this example_rd
      Map.empty]
  obtain env fs' where p:
    "preprocess example_ext example_this example_scene example_rd Map.empty
       = (Inr (example_this\<lparr> m_LightCoeffs := env,
                              m_TransportSHCoeffs := example_matrix (2 * pi) 1 1 \<rparr>), fs')"
    using ex_preprocess_hit by blast
  from t p have "length (m_TransportSHCoeffs (example_this\<lparr> m_LightCoeffs := env,
                              m_TransportSHCoeffs := example_matrix (2 * pi) 1 1 \<rparr>)) = 3"
    by (simp add: ex_vertex_count)
  with t p show ?thesis by (simp add: ex_meshes)
qed

theorem shFunc_transport_witness:
  "shFunc example_ext Unshadowed example_scene (0, 0, 0) (2, 0, 0) 0 (pi / 2) = 1
   \<and> shFunc example_ext Shadowed example_scene (0, 0, 0) (2, 0, 0) 0 (pi / 2) = 0
   \<and> shFunc example_ext Interreflection example_scene (0, 1, 0) (2, 0, 0) 0 (pi / 2) = 1
   \<and> dot (normalized (1, 0, 0)) (normalized (2, 0, 0)) = 1"
  using shFunc_transport [of example_ext example_scene "(0, 0, 0)" "(2, 0, 0)" 0 "pi / 2"
      example_scene "(0, 0, 0)"]
    shFunc_transport [of example_ext example_scene "(0, 1, 0)" "(2, 0, 0)" 0 "pi / 2"
      example_scene "(0, 0, 0)"]
  by (simp add: ex_ToVector squaredNorm_def dot_def vx_def vy_def vz_def example_scene_def)

end
